theory Spec2Isabelle
  imports Main
begin

section \<open>Python values, exceptions, documents and prompts\<close>

text \<open>
  An exception is its class name and the text \<^verbatim>\<open>str(e)\<close>. Every exception of the
  model is an instance of \<^verbatim>\<open>Exception\<close>, the class that the handlers of the source
  name (\<^verbatim>\<open>except Exception as e\<close>). A function that can raise returns
  \<open>exn + 'a\<close>, with \<open>Inl\<close> the raised exception.
\<close>

datatype exn = Exn (exn_kind: string) (exn_str: string)

text \<open>
  The values that reach a prompt template: a string, a list of strings, or the
  \<^verbatim>\<open>AIMessage\<close> object returned by \<^verbatim>\<open>llm.invoke\<close> (given by its content).
\<close>

datatype pyval = PyStr string | PyStrList "string list" | PyAIMessage string

text \<open>\<^verbatim>\<open>langchain\<close>'s Document: \<^verbatim>\<open>page_content\<close> and the \<^verbatim>\<open>metadata\<close> dict.\<close>

record Document =
  page_content :: string
  metadata :: "string \<rightharpoonup> string"

text \<open>
  The content of a chat message, or the text of a message template. The fixed prose
  of the source's f-strings is left out; each f-string is a constructor holding the
  values the source interpolates, in the order of their first occurrence. \<open>Var name\<close>
  is the template text \<^verbatim>\<open>{name}\<close>, and \<open>Format v\<close> is the text of the value \<open>v\<close> put in
  the place of such a field. \<open>SimplifiedExpansionTemplate\<close> is the one template text
  that the source writes as a plain string, with the field \<^verbatim>\<open>{user_question}\<close>;
  \<open>SimplifiedExpansion q\<close> is that text with the field filled.
\<close>

datatype prompt =
    Text string
  | Var string
  | Format pyval
  | ExpansionSystem int
  | ExpansionHuman string int
  | SimplifiedExpansionTemplate
  | SimplifiedExpansion pyval
  | ExtractQuestions int
  | FinalizedListThoughts string "(nat \<times> string) list" int
  | FinalCombinedThoughts int nat nat int bool
  | HumanCombiner string "(nat \<times> string \<times> string list) list" int
  | HumanStructured int

datatype message = SystemMessage prompt | HumanMessage prompt | AIMessage prompt

text \<open>
  What \<^verbatim>\<open>ChatPromptTemplate.from_messages\<close> is given: message templates
  (\<^verbatim>\<open>XMessagePromptTemplate.from_template(text)\<close>), whose text is parsed for
  replacement fields, and messages, which are taken as they are.
  \<^verbatim>\<open>ChatPromptTemplate.from_messages(ms).format_messages(**kwargs)\<close> is a call of the
  template library, not of this repository: it is the argument \<open>fmt\<close> of every function
  that builds a prompt, any function from the templates and the keyword arguments to
  the formatted messages or an exception. The source builds the text of several
  templates from the user's question, the intents and the tool texts, so the library
  can raise on them (a brace in such a text opens a replacement field).
\<close>

datatype message_like =
    SystemMessagePromptTemplate prompt
  | HumanMessagePromptTemplate prompt
  | AIMessagePromptTemplate prompt
  | Message message

type_synonym kwargs = "(string \<times> pyval) list"

type_synonym chat_prompt = "message_like list \<Rightarrow> kwargs \<Rightarrow> exn + message list"

section \<open>The Generation Port\<close>

text \<open>
  \<^verbatim>\<open>self.llm.invoke(messages)\<close> returns an AIMessage (here: its \<^verbatim>\<open>content\<close>) or raises;
  \<^verbatim>\<open>self.structured_llm.invoke(messages)\<close> returns an object of the schema class,
  or \<^verbatim>\<open>None\<close>, or raises. The port is any function of the number of requests made
  before (within one call of \<^verbatim>\<open>generate\<close>) and of the messages: two requests with
  the same messages may answer differently. Every \<^verbatim>\<open>generate\<close> returns, with its
  result, the trace of the requests it made, in order.
\<close>

datatype request = Invoke "message list" | StructuredInvoke "message list"

fun is_invoke :: "request \<Rightarrow> bool" where
  "is_invoke (Invoke messages) = True"
| "is_invoke (StructuredInvoke messages) = False"

fun is_structured :: "request \<Rightarrow> bool" where
  "is_structured (Invoke messages) = False"
| "is_structured (StructuredInvoke messages) = True"

type_synonym llm_port = "nat \<Rightarrow> message list \<Rightarrow> exn + string"

type_synonym 'o structured_port = "nat \<Rightarrow> message list \<Rightarrow> exn + 'o option"

definition AttributeError_None :: "string \<Rightarrow> exn" where
  "AttributeError_None attr =
     Exn ''AttributeError''
       ([CHR 0x27] @ ''NoneType'' @ [CHR 0x27] @ '' object has no attribute '' @
        [CHR 0x27] @ attr @ [CHR 0x27])"

definition max_attempts :: nat where
  "max_attempts = 3"

section \<open>Query Expander: \<^verbatim>\<open>MultiQueryExpansionModule\<close>\<close>

text \<open>
  The schema class \<^verbatim>\<open>ExpandedQueries\<close> of \<^verbatim>\<open>_initialize_structured_llm\<close>: one field,
  a list of strings with a description and no length constraint.
\<close>

datatype ExpandedQueries = ExpandedQueries (expanded_queries: "string list")

record MultiQueryExpansionModule =
  n_items :: int
  mqe_llm :: llm_port
  mqe_structured_llm :: "ExpandedQueries structured_port"

text \<open>
  \<^verbatim>\<open>_get_expansion_messages\<close>: the human template is the f-string that holds the user's
  question; \<^verbatim>\<open>format_messages(user_question=user_question)\<close>.
\<close>

definition get_expansion_messages ::
    "chat_prompt \<Rightarrow> MultiQueryExpansionModule \<Rightarrow> string \<Rightarrow> exn + message list" where
  "get_expansion_messages fmt self user_question =
     fmt [SystemMessagePromptTemplate (ExpansionSystem (n_items self)),
          HumanMessagePromptTemplate (ExpansionHuman user_question (n_items self))]
         [(''user_question'', PyStr user_question)]"

definition get_structured_message_after_first_response ::
    "chat_prompt \<Rightarrow> MultiQueryExpansionModule \<Rightarrow> string \<Rightarrow> string \<Rightarrow> exn + message list" where
  "get_structured_message_after_first_response fmt self ai_message user_question =
     fmt [SystemMessagePromptTemplate SimplifiedExpansionTemplate,
          AIMessagePromptTemplate (Var ''AI_response''),
          Message (HumanMessage (ExtractQuestions (n_items self)))]
         [(''user_question'', PyStr user_question), (''AI_response'', PyAIMessage ai_message)]"

text \<open>
  \<^verbatim>\<open>generate\<close>: two prompts, two port calls, no handler, no check of the extracted
  list. An exception of the template library, of the port, or of
  \<^verbatim>\<open>result.expanded_queries\<close> on \<^verbatim>\<open>None\<close> (AttributeError) is the outcome of the call.
\<close>

definition mqe_generate ::
    "chat_prompt \<Rightarrow> MultiQueryExpansionModule \<Rightarrow> string \<Rightarrow>
     (exn + string list) \<times> request list" where
  "mqe_generate fmt self query =
     (case get_expansion_messages fmt self query of
        Inl e \<Rightarrow> (Inl e, [])
      | Inr messages \<Rightarrow>
          (let trace1 = [Invoke messages]
           in case mqe_llm self 0 messages of
                Inl e \<Rightarrow> (Inl e, trace1)
              | Inr ai_message \<Rightarrow>
                  (case get_structured_message_after_first_response fmt self ai_message query of
                     Inl e \<Rightarrow> (Inl e, trace1)
                   | Inr structured_message \<Rightarrow>
                       (let trace2 = trace1 @ [StructuredInvoke structured_message]
                        in case mqe_structured_llm self (length trace1) structured_message of
                             Inl e \<Rightarrow> (Inl e, trace2)
                           | Inr None \<Rightarrow>
                               (Inl (AttributeError_None ''expanded_queries''), trace2)
                           | Inr (Some result) \<Rightarrow>
                               (Inr (expanded_queries result), trace2)))))"

section \<open>Intent-Level Reranker: \<^verbatim>\<open>RerankerMultiQueryExpansionVariations\<close>\<close>

text \<open>
  The schema class \<^verbatim>\<open>FinalToolNames\<close>. Its declared constraint
  (\<^verbatim>\<open>min_length = max_length = k\<close>) is the predicate \<open>schema_length\<close>; whether the
  port enforces it is a property of the port, not of this code, which checks the
  length again itself.
\<close>

datatype FinalToolNames = FinalToolNames (tool_names: "string list")


record RerankerMultiQueryExpansionVariations =
  top_k :: int
  multi_query_expansion_variation_module :: MultiQueryExpansionModule
  rmq_structured_llm :: "FinalToolNames structured_port"

text \<open>\<^verbatim>\<open>doc.metadata.get('tool_name', 'Unknown')\<close>\<close>

definition metadata_get :: "Document \<Rightarrow> string \<Rightarrow> string \<Rightarrow> string" where
  "metadata_get doc key dflt = (case metadata doc key of None \<Rightarrow> dflt | Some v \<Rightarrow> v)"

definition format_document :: "Document \<Rightarrow> string" where
  "format_document doc =
     ''-------\<newline>TOOL NAME: '' @ metadata_get doc ''tool_name'' ''Unknown'' @
     ''\<newline>TOOL DESCRIPTION & USEFUL DETAILS: '' @ page_content doc"

fun join :: "string \<Rightarrow> string list \<Rightarrow> string" where
  "join sep [] = []"
| "join sep [x] = x"
| "join sep (x # y # ys) = x @ sep @ join sep (y # ys)"

definition format_documents :: "Document list \<Rightarrow> string" where
  "format_documents documents = join ''\<newline>'' (map format_document documents)"

text \<open>\<^verbatim>\<open>enumerate(xs, start=1)\<close>\<close>

definition enumerate1 :: "'a list \<Rightarrow> (nat \<times> 'a) list" where
  "enumerate1 xs = zip [1 ..< Suc (length xs)] xs"

text \<open>
  \<^verbatim>\<open>_get_finalized_list_thoughts_messages\<close>: the expansion messages are built (and
  formatted) first and enter the chat template as messages; the human template is
  the f-string that holds the texts of the documents;
  \<^verbatim>\<open>format_messages(ai_response=ai_response)\<close>.
\<close>

definition get_finalized_list_thoughts_messages ::
    "chat_prompt \<Rightarrow> RerankerMultiQueryExpansionVariations \<Rightarrow> string \<Rightarrow> pyval \<Rightarrow>
     Document list \<Rightarrow> Document list list \<Rightarrow> exn + message list" where
  "get_finalized_list_thoughts_messages fmt self user_question ai_response
       user_question_results sentence_results =
     (let sentences_section =
            map (\<lambda>(idx, sentence_result). (idx, format_documents sentence_result))
              (enumerate1 sentence_results)
      in case get_expansion_messages fmt (multi_query_expansion_variation_module self)
                user_question of
           Inl e \<Rightarrow> Inl e
         | Inr sentence_extraction_messages \<Rightarrow>
             fmt (map Message sentence_extraction_messages @
                    [AIMessagePromptTemplate (Var ''ai_response''),
                     HumanMessagePromptTemplate
                       (FinalizedListThoughts (format_documents user_question_results)
                          sentences_section (top_k self))])
                 [(''ai_response'', ai_response)])"

text \<open>
  The body of \<^verbatim>\<open>try:\<close> in the loop of \<^verbatim>\<open>generate\<close>, on the variables it assigns
  (\<^verbatim>\<open>result\<close>, and the trace of the port). \<open>Inr True\<close> is \<^verbatim>\<open>break\<close>, \<open>Inr False\<close>
  is falling out of the \<^verbatim>\<open>if\<close>, \<open>Inl e\<close> is the exception raised; the assignment
  to \<^verbatim>\<open>result\<close> is done before \<^verbatim>\<open>result.tool_names\<close> can raise.
\<close>

definition rmq_try ::
    "RerankerMultiQueryExpansionVariations \<Rightarrow> message list \<Rightarrow>
     FinalToolNames option \<times> request list \<Rightarrow>
     (FinalToolNames option \<times> request list) \<times> (exn + bool)" where
  "rmq_try self messages st =
     (case st of (result, trace) \<Rightarrow>
        (let trace1 = trace @ [StructuredInvoke messages]
         in case rmq_structured_llm self (length trace) messages of
              Inl e \<Rightarrow> ((result, trace1), Inl e)
            | Inr None \<Rightarrow> ((None, trace1), Inl (AttributeError_None ''tool_names''))
            | Inr (Some obj) \<Rightarrow>
                ((Some obj, trace1), Inr (int (length (tool_names obj)) = top_k self))))"

text \<open>
  \<^verbatim>\<open>while attempts < max_attempts: attempts += 1; try: ... except Exception: pass\<close>
\<close>

function rmq_while ::
    "RerankerMultiQueryExpansionVariations \<Rightarrow> message list \<Rightarrow> nat \<Rightarrow>
     FinalToolNames option \<times> request list \<Rightarrow> FinalToolNames option \<times> request list" where
  "rmq_while self messages attempts st =
     (if attempts < max_attempts
      then (case rmq_try self messages st of
              (st', Inr True) \<Rightarrow> st'
            | (st', Inr False) \<Rightarrow> rmq_while self messages (attempts + 1) st'
            | (st', Inl e) \<Rightarrow> rmq_while self messages (attempts + 1) st')
      else st)"
  by pat_completeness auto
termination
  by (relation "measure (\<lambda>(self, messages, attempts, st). max_attempts - attempts)") auto

text \<open>
  \<^verbatim>\<open>generate\<close>: steps 1 and 2 build the prompts before the loop, outside any handler,
  so an exception of the template library there is the outcome of the call, with no
  request made. Step 3 is the loop and the test after it.
\<close>

definition rmq_generate ::
    "chat_prompt \<Rightarrow> RerankerMultiQueryExpansionVariations \<Rightarrow> string \<Rightarrow> pyval \<Rightarrow>
     Document list \<Rightarrow> Document list list \<Rightarrow> (exn + string list) \<times> request list" where
  "rmq_generate fmt self user_question ai_response user_question_results sentence_results =
     (case get_expansion_messages fmt (multi_query_expansion_variation_module self)
             user_question of
        Inl e \<Rightarrow> (Inl e, [])
      | Inr expansion_messages \<Rightarrow>
          (case get_finalized_list_thoughts_messages fmt self user_question ai_response
                  user_question_results sentence_results of
             Inl e \<Rightarrow> (Inl e, [])
           | Inr messages \<Rightarrow>
               (case rmq_while self messages 0 (None, []) of
                  (None, trace) \<Rightarrow> (Inr [], trace)
                | (Some result, trace) \<Rightarrow>
                    (if int (length (tool_names result)) = top_k self
                     then (Inr (tool_names result), trace)
                     else (Inr [], trace)))))"

section \<open>Cross-Intent Combiner: \<^verbatim>\<open>RerankerDecomposedQueries\<close>\<close>

record RerankerDecomposedQueries =
  final_top_k :: int
  rdq_llm :: llm_port
  rdq_structured_llm :: "FinalToolNames structured_port"

definition IndexError :: exn where
  "IndexError = Exn ''IndexError'' ''list index out of range''"

definition ZeroDivisionError :: exn where
  "ZeroDivisionError = Exn ''ZeroDivisionError'' ''integer division or modulo by zero''"

text \<open>
  The loop that builds the human prompt:
  \<^verbatim>\<open>for idx, intent in enumerate(list_of_intents, start=1): ... list_of_list_of_tools[idx-1]\<close>.
  The index \<^verbatim>\<open>idx-1\<close> is never negative; past the end of the list it raises IndexError.
\<close>

fun intent_blocks ::
    "nat \<Rightarrow> string list \<Rightarrow> string list list \<Rightarrow> exn + (nat \<times> string \<times> string list) list" where
  "intent_blocks idx [] list_of_list_of_tools = Inr []"
| "intent_blocks idx (intent # rest) list_of_list_of_tools =
     (if idx - 1 < length list_of_list_of_tools
      then (case intent_blocks (idx + 1) rest list_of_list_of_tools of
              Inl e \<Rightarrow> Inl e
            | Inr blocks \<Rightarrow> Inr ((idx, intent, list_of_list_of_tools ! (idx - 1)) # blocks))
      else Inl IndexError)"

text \<open>
  \<^verbatim>\<open>_get_final_combined_thoughts_messages\<close>, statement by statement:
  \<^verbatim>\<open>list_of_list_of_tools[0]\<close> raises IndexError on the empty list, and
  \<^verbatim>\<open>self.final_top_k // num_intents\<close> raises ZeroDivisionError when there is no intent
  (\<open>div\<close> on \<open>int\<close> rounds down, as \<^verbatim>\<open>//\<close> does). Both templates are f-strings; the
  human one holds the question, the intents and the lists of tools;
  \<^verbatim>\<open>format_messages()\<close> has no keyword argument.
\<close>

definition get_final_combined_thoughts_messages ::
    "chat_prompt \<Rightarrow> RerankerDecomposedQueries \<Rightarrow> string \<Rightarrow> string list \<Rightarrow>
     string list list \<Rightarrow> exn + message list" where
  "get_final_combined_thoughts_messages fmt self user_question list_of_intents
       list_of_list_of_tools =
     (let num_intents = length list_of_intents
      in case list_of_list_of_tools of
           [] \<Rightarrow> Inl IndexError
         | tools0 # _ \<Rightarrow>
             (let top_k_per_intent = length tools0
              in if num_intents = 0 then Inl ZeroDivisionError
                 else (let num_tools_divisible_by_intent =
                             max 1 (final_top_k self div int num_intents);
                           plural = (num_tools_divisible_by_intent > 1)
                       in case intent_blocks 1 list_of_intents list_of_list_of_tools of
                            Inl e \<Rightarrow> Inl e
                          | Inr blocks \<Rightarrow>
                              fmt [SystemMessagePromptTemplate
                                     (FinalCombinedThoughts (final_top_k self) num_intents
                                        top_k_per_intent num_tools_divisible_by_intent plural),
                                   HumanMessagePromptTemplate
                                     (HumanCombiner user_question blocks (final_top_k self))]
                                  [])))"

text \<open>
  \<^verbatim>\<open>_get_structured_prompt_after_first_response\<close>: two messages, no template.
\<close>

definition get_structured_prompt_after_first_response ::
    "chat_prompt \<Rightarrow> RerankerDecomposedQueries \<Rightarrow> string \<Rightarrow> exn + message list" where
  "get_structured_prompt_after_first_response fmt self ai_response =
     fmt [Message (AIMessage (Text ai_response)),
          Message (HumanMessage (HumanStructured (final_top_k self)))]
         []"

text \<open>
  \<^verbatim>\<open>len(list(set(xs)))\<close> is the number of distinct members of \<open>xs\<close>.
\<close>

definition len_list_set :: "string list \<Rightarrow> int" where
  "len_list_set xs = int (length (remdups xs))"

text \<open>
  The body of \<^verbatim>\<open>try:\<close> in the loop of \<^verbatim>\<open>generate\<close>: steps 1 to 4 and the test
  before \<^verbatim>\<open>break\<close>, all inside the handler.
\<close>

definition rdq_try ::
    "chat_prompt \<Rightarrow> RerankerDecomposedQueries \<Rightarrow> string \<Rightarrow> string list \<Rightarrow>
     string list list \<Rightarrow> FinalToolNames option \<times> request list \<Rightarrow>
     (FinalToolNames option \<times> request list) \<times> (exn + bool)" where
  "rdq_try fmt self user_question list_of_intents list_of_list_of_tools st =
     (case st of (result, trace) \<Rightarrow>
        (case get_final_combined_thoughts_messages fmt self user_question list_of_intents
                list_of_list_of_tools of
           Inl e \<Rightarrow> ((result, trace), Inl e)
         | Inr messages \<Rightarrow>
             (let trace1 = trace @ [Invoke messages]
              in case rdq_llm self (length trace) messages of
                   Inl e \<Rightarrow> ((result, trace1), Inl e)
                 | Inr ai_response_content \<Rightarrow>
                     (case get_structured_prompt_after_first_response fmt self
                             ai_response_content of
                        Inl e \<Rightarrow> ((result, trace1), Inl e)
                      | Inr structured_messages \<Rightarrow>
                          (let trace2 = trace1 @ [StructuredInvoke structured_messages]
                           in case rdq_structured_llm self (length trace1)
                                     structured_messages of
                                Inl e \<Rightarrow> ((result, trace2), Inl e)
                              | Inr None \<Rightarrow>
                                  ((None, trace2), Inl (AttributeError_None ''tool_names''))
                              | Inr (Some obj) \<Rightarrow>
                                  ((Some obj, trace2),
                                   Inr (len_list_set (tool_names obj) = final_top_k self)))))))"

text \<open>
  \<^verbatim>\<open>while attempts < max_attempts: attempts += 1; try: ... except Exception: continue\<close>
\<close>

function rdq_while ::
    "chat_prompt \<Rightarrow> RerankerDecomposedQueries \<Rightarrow> string \<Rightarrow> string list \<Rightarrow>
     string list list \<Rightarrow> nat \<Rightarrow> FinalToolNames option \<times> request list \<Rightarrow>
     FinalToolNames option \<times> request list" where
  "rdq_while fmt self user_question list_of_intents list_of_list_of_tools attempts st =
     (if attempts < max_attempts
      then (case rdq_try fmt self user_question list_of_intents list_of_list_of_tools st of
              (st', Inr True) \<Rightarrow> st'
            | (st', Inr False) \<Rightarrow>
                rdq_while fmt self user_question list_of_intents list_of_list_of_tools
                  (attempts + 1) st'
            | (st', Inl e) \<Rightarrow>
                rdq_while fmt self user_question list_of_intents list_of_list_of_tools
                  (attempts + 1) st')
      else st)"
  by pat_completeness auto
termination
  by (relation "measure (\<lambda>(fmt, self, q, ins, tls, attempts, st). max_attempts - attempts)")
     auto

definition rdq_generate ::
    "chat_prompt \<Rightarrow> RerankerDecomposedQueries \<Rightarrow> string \<Rightarrow> string list \<Rightarrow>
     string list list \<Rightarrow> (exn + string list) \<times> request list" where
  "rdq_generate fmt self user_question list_of_intents list_of_list_of_tools =
     (case rdq_while fmt self user_question list_of_intents list_of_list_of_tools 0
             (None, []) of
        (None, trace) \<Rightarrow> (Inr [], trace)
      | (Some result, trace) \<Rightarrow>
          (if len_list_set (tool_names result) = final_top_k self
           then (Inr (tool_names result), trace)
           else (Inr [], trace)))"

text \<open>
  What the two loops count as a failed attempt, on the answer of the structured
  port: an exception, \<^verbatim>\<open>None\<close>, or a list that misses the test before \<^verbatim>\<open>break\<close>.
\<close>

definition rmq_attempt_fails ::
    "RerankerMultiQueryExpansionVariations \<Rightarrow> exn + FinalToolNames option \<Rightarrow> bool" where
  "rmq_attempt_fails self answer =
     (case answer of
        Inl e \<Rightarrow> True
      | Inr None \<Rightarrow> True
      | Inr (Some obj) \<Rightarrow> int (length (tool_names obj)) \<noteq> top_k self)"

definition rdq_attempt_fails ::
    "RerankerDecomposedQueries \<Rightarrow> exn + FinalToolNames option \<Rightarrow> bool" where
  "rdq_attempt_fails self answer =
     (case answer of
        Inl e \<Rightarrow> True
      | Inr None \<Rightarrow> True
      | Inr (Some obj) \<Rightarrow> len_list_set (tool_names obj) \<noteq> final_top_k self)"

text \<open>
  No attempt of a call succeeded: every structured request of its trace (the request
  number \<open>n\<close> of the call, with its messages) was answered by a failure. An attempt
  that raised before its structured request has none in the trace.
\<close>

definition rmq_no_attempt_succeeds ::
    "RerankerMultiQueryExpansionVariations \<Rightarrow> request list \<Rightarrow> bool" where
  "rmq_no_attempt_succeeds self trace =
     list_all
       (\<lambda>(n, request).
          case request of
            Invoke messages \<Rightarrow> True
          | StructuredInvoke messages \<Rightarrow>
              rmq_attempt_fails self (rmq_structured_llm self n messages))
       (enumerate 0 trace)"

definition rdq_no_attempt_succeeds :: "RerankerDecomposedQueries \<Rightarrow> request list \<Rightarrow> bool" where
  "rdq_no_attempt_succeeds self trace =
     list_all
       (\<lambda>(n, request).
          case request of
            Invoke messages \<Rightarrow> True
          | StructuredInvoke messages \<Rightarrow>
              rdq_attempt_fails self (rdq_structured_llm self n messages))
       (enumerate 0 trace)"


section \<open>Similarity Search Port and Candidate Retriever\<close>

text \<open>
  The port is \<^verbatim>\<open>toolshed_knowledge_base.query(query, k=top_k)\<close>: any function of the
  number of queries made before, the query and \<open>k\<close>, returning documents or
  raising. \<^verbatim>\<open>FAISSVectorStoreIndexer\<close> holds \<^verbatim>\<open>self.index\<close>, \<^verbatim>\<open>None\<close> until
  \<^verbatim>\<open>index_documents\<close> or \<^verbatim>\<open>load_index\<close> has run; the index is given by its
  \<^verbatim>\<open>similarity_search\<close>.
\<close>

type_synonym similarity_port = "nat \<Rightarrow> string \<Rightarrow> int \<Rightarrow> exn + Document list"

record FAISSVectorStoreIndexer =
  faiss_index :: "similarity_port option"

definition index_not_created :: string where
  "index_not_created =
     ''Index has not been created yet. Call '' @ [CHR 0x27] @ ''index_documents'' @ [CHR 0x27] @
     '' or '' @ [CHR 0x27] @ ''load_index'' @ [CHR 0x27] @ '' first.''"

definition faiss_query :: "FAISSVectorStoreIndexer \<Rightarrow> similarity_port" where
  "faiss_query self n query k =
     (case faiss_index self of
        Some similarity_search \<Rightarrow> similarity_search n query k
      | None \<Rightarrow> Inl (Exn ''ValueError'' index_not_created))"

record InitialToolRetrievalModule =
  toolshed_knowledge_base :: similarity_port

text \<open>
  \<^verbatim>\<open>InitialToolRetrievalModule.generate\<close> (its parameter \<^verbatim>\<open>top_k\<close> is \<open>k\<close> here);
  the second component is the list of the queries it sent to the port.
\<close>

definition itr_generate ::
    "InitialToolRetrievalModule \<Rightarrow> string \<Rightarrow> int \<Rightarrow> (exn + Document list) \<times> (string \<times> int) list" where
  "itr_generate self query k =
     (case toolshed_knowledge_base self 0 query k of
        Inr docs \<Rightarrow> (Inr docs, [(query, k)])
      | Inl e \<Rightarrow>
          (Inl (Exn ''ValueError'' (''Error retrieving tools: '' @ exn_str e)), [(query, k)]))"

section \<open>Fusion Workflow: the nodes\<close>

text \<open>
  The dicts and the states of \<^verbatim>\<open>advanced_rag_tool_fusion_langgraph.py\<close>. The keys of
  the dict that a branch appends to \<^verbatim>\<open>decomposed_query_dicts\<close> carry the prefix
  \<open>dq_\<close>, since a state has keys of the same names.
\<close>

record expanded_query_dict =
  expanded_query :: string
  retrieved_tools :: "Document list"

record decomposed_query_dict =
  dq_decomposed_query :: string
  dq_expanded_query_dicts :: "expanded_query_dict list"
  dq_decomposed_query_tools :: "Document list"
  dq_final_top_k_tools :: "string list"

record DecomposedQueryState =
  decomposed_query :: string
  expanded_queries :: "string list"
  decomposed_query_tools :: "Document list"
  expanded_query_dicts :: "expanded_query_dict list"

record ToolshedState =
  user_query :: string
  conversation_history :: "string list"
  rewritten_query :: string
  decomposed_queries :: "string list"
  decomposed_query_dicts :: "decomposed_query_dict list"
  final_top_k_tools :: "string list"

text \<open>
  Each node returns the value of the one key it updates, and the trace of the
  Generation Port. The module objects are globals of the source file, built when the
  file is loaded; here they are arguments, and their construction is not part of the
  model. The scheduling of the nodes by the graph library is not modelled either.
\<close>

definition expand_query ::
    "chat_prompt \<Rightarrow> MultiQueryExpansionModule \<Rightarrow> DecomposedQueryState \<Rightarrow>
     (exn + string list) \<times> request list" where
  "expand_query fmt module state = mqe_generate fmt module (decomposed_query state)"

definition rerank_expanded_queries ::
    "chat_prompt \<Rightarrow> RerankerMultiQueryExpansionVariations \<Rightarrow> DecomposedQueryState \<Rightarrow>
     (exn + decomposed_query_dict list) \<times> request list" where
  "rerank_expanded_queries fmt reranker state =
     (let expanded_queries_list = map expanded_query (expanded_query_dicts state);
          expanded_queries_tools_list = map retrieved_tools (expanded_query_dicts state)
      in case rmq_generate fmt reranker (decomposed_query state)
                (PyStrList expanded_queries_list) (decomposed_query_tools state)
                expanded_queries_tools_list of
           (Inl e, trace) \<Rightarrow> (Inl e, trace)
         | (Inr top_tools, trace) \<Rightarrow>
             (Inr [\<lparr>dq_decomposed_query = decomposed_query state,
                    dq_expanded_query_dicts = expanded_query_dicts state,
                    dq_decomposed_query_tools = decomposed_query_tools state,
                    dq_final_top_k_tools = top_tools\<rparr>], trace))"

definition rerank_decomposed_queries ::
    "chat_prompt \<Rightarrow> RerankerDecomposedQueries \<Rightarrow> ToolshedState \<Rightarrow>
     (exn + string list) \<times> request list" where
  "rerank_decomposed_queries fmt combiner state =
     (let decomposed_queries_list = map dq_decomposed_query (decomposed_query_dicts state)
      in if length decomposed_queries_list = 1
         then (Inr (dq_final_top_k_tools (decomposed_query_dicts state ! 0)), [])
         else (let decomposed_queries_final_tools_list =
                     map dq_final_top_k_tools (decomposed_query_dicts state)
               in rdq_generate fmt combiner (rewritten_query state) decomposed_queries_list
                    decomposed_queries_final_tools_list))"

section \<open>A template library for the concrete cases\<close>

text \<open>
  The theorems about all inputs are proved for every \<open>fmt\<close>. The concrete cases below
  are evaluated with \<open>fstring_format_messages\<close>, which follows the f-string templates
  of the library on the texts used there: \<^verbatim>\<open>{{\<close> and \<^verbatim>\<open>}}\<close> are literal braces,
  \<^verbatim>\<open>{name}\<close> is a replacement field, a single brace is a ValueError when the templates
  are parsed, and a field whose name is not a keyword argument is a KeyError when
  they are formatted. It is exact on texts without braces and on texts whose fields
  are plain names that are not keyword arguments; conversions, format specifications
  and positional fields are not distinguished from names, and a field of an
  interpolated text that names a keyword argument is left in the text.
\<close>

definition ValueError_format :: "string \<Rightarrow> exn" where
  "ValueError_format what = Exn ''ValueError'' what"

definition single_close :: exn where
  "single_close =
     ValueError_format
       (''Single '' @ [CHR 0x27] @ ''}'' @ [CHR 0x27] @ '' encountered in format string'')"

definition single_open :: exn where
  "single_open =
     ValueError_format
       (''Single '' @ [CHR 0x27] @ ''{'' @ [CHR 0x27] @ '' encountered in format string'')"

definition expected_close :: exn where
  "expected_close =
     ValueError_format
       (''expected '' @ [CHR 0x27] @ ''}'' @ [CHR 0x27] @ '' before end of string'')"

definition KeyError :: "string \<Rightarrow> exn" where
  "KeyError name = Exn ''KeyError'' ([CHR 0x27] @ name @ [CHR 0x27])"

text \<open>
  The names of the replacement fields of a text, in order. The first argument is
  \<open>None\<close> in literal text and \<open>Some acc\<close> inside a field, \<open>acc\<close> the characters of its
  name read so far, last first.
\<close>

fun field_names :: "string option \<Rightarrow> string \<Rightarrow> exn + string list" where
  "field_names None [] = Inr []"
| "field_names (Some acc) [] = Inl expected_close"
| "field_names None (c # cs) =
     (if c = CHR ''{''
      then (case cs of
              [] \<Rightarrow> Inl single_open
            | d # ds \<Rightarrow> if d = CHR ''{'' then field_names None ds else field_names (Some []) cs)
      else if c = CHR ''}''
      then (case cs of
              [] \<Rightarrow> Inl single_close
            | d # ds \<Rightarrow> if d = CHR ''}'' then field_names None ds else Inl single_close)
      else field_names None cs)"
| "field_names (Some acc) (c # cs) =
     (if c = CHR ''}''
      then (case field_names None cs of
              Inl e \<Rightarrow> Inl e
            | Inr names \<Rightarrow> Inr (rev acc # names))
      else field_names (Some (c # acc)) cs)"

text \<open>The first exception of a list of outcomes, or all their values.\<close>

fun collect :: "(exn + 'a list) list \<Rightarrow> exn + 'a list" where
  "collect [] = Inr []"
| "collect (Inl e # rest) = Inl e"
| "collect (Inr xs # rest) = (case collect rest of Inl e \<Rightarrow> Inl e | Inr ys \<Rightarrow> Inr (xs @ ys))"

text \<open>
  The texts that the source puts into a template by an f-string, where the library
  then looks for fields: the question, the texts of the documents, the intents and
  the names of the tools.
\<close>

fun template_texts :: "prompt \<Rightarrow> string list" where
  "template_texts (Text s) = [s]"
| "template_texts (ExpansionHuman user_question n) = [user_question]"
| "template_texts (FinalizedListThoughts documents sections k) = documents # map snd sections"
| "template_texts (HumanCombiner user_question blocks k) =
     user_question # concat (map (\<lambda>(idx, intent, tools). intent # tools) blocks)"
| "template_texts p = []"

fun template_fields :: "prompt \<Rightarrow> exn + string list" where
  "template_fields (Var name) = Inr [name]"
| "template_fields SimplifiedExpansionTemplate = Inr [''user_question'']"
| "template_fields p = collect (map (field_names None) (template_texts p))"

fun message_like_fields :: "message_like \<Rightarrow> exn + string list" where
  "message_like_fields (SystemMessagePromptTemplate p) = template_fields p"
| "message_like_fields (HumanMessagePromptTemplate p) = template_fields p"
| "message_like_fields (AIMessagePromptTemplate p) = template_fields p"
| "message_like_fields (Message m) = Inr []"

fun fill :: "kwargs \<Rightarrow> prompt \<Rightarrow> prompt" where
  "fill kw (Var name) = (case map_of kw name of Some v \<Rightarrow> Format v | None \<Rightarrow> Var name)"
| "fill kw SimplifiedExpansionTemplate =
     (case map_of kw ''user_question'' of
        Some v \<Rightarrow> SimplifiedExpansion v
      | None \<Rightarrow> SimplifiedExpansionTemplate)"
| "fill kw p = p"

fun format_message :: "kwargs \<Rightarrow> message_like \<Rightarrow> message" where
  "format_message kw (SystemMessagePromptTemplate p) = SystemMessage (fill kw p)"
| "format_message kw (HumanMessagePromptTemplate p) = HumanMessage (fill kw p)"
| "format_message kw (AIMessagePromptTemplate p) = AIMessage (fill kw p)"
| "format_message kw (Message m) = m"

definition fstring_format_messages :: chat_prompt where
  "fstring_format_messages ms kw =
     (case collect (map message_like_fields ms) of
        Inl e \<Rightarrow> Inl e
      | Inr names \<Rightarrow>
          (case filter (\<lambda>name. map_of kw name = None) names of
             name # _ \<Rightarrow> Inl (KeyError name)
           | [] \<Rightarrow> Inr (map (format_message kw) ms)))"

section \<open>Concrete ports and inputs\<close>

definition expander_of :: "string list \<Rightarrow> MultiQueryExpansionModule" where
  "expander_of extracted =
     \<lparr>n_items = 2,
      mqe_llm = (\<lambda>n messages. Inr ''REASONING''),
      mqe_structured_llm = (\<lambda>n messages. Inr (Some (ExpandedQueries extracted)))\<rparr>"

definition reranker_of :: "int \<Rightarrow> FinalToolNames structured_port \<Rightarrow> RerankerMultiQueryExpansionVariations" where
  "reranker_of k port =
     \<lparr>top_k = k,
      multi_query_expansion_variation_module = expander_of [''p1'', ''p2''],
      rmq_structured_llm = port\<rparr>"

definition combiner_of :: "int \<Rightarrow> FinalToolNames structured_port \<Rightarrow> RerankerDecomposedQueries" where
  "combiner_of k port =
     \<lparr>final_top_k = k,
      rdq_llm = (\<lambda>n messages. Inr ''REASONING''),
      rdq_structured_llm = port\<rparr>"

definition combiner_llm_down :: "int \<Rightarrow> FinalToolNames structured_port \<Rightarrow> RerankerDecomposedQueries" where
  "combiner_llm_down k port =
     \<lparr>final_top_k = k,
      rdq_llm = (\<lambda>n messages. Inl (Exn ''TimeoutError'' ''request timed out'')),
      rdq_structured_llm = port\<rparr>"

definition always :: "string list \<Rightarrow> FinalToolNames structured_port" where
  "always names n messages = Inr (Some (FinalToolNames names))"

definition once_then_raise :: "string list \<Rightarrow> FinalToolNames structured_port" where
  "once_then_raise names n messages =
     (if n = 0 then Inr (Some (FinalToolNames names))
      else Inl (Exn ''TimeoutError'' ''request timed out''))"

definition doc :: "string \<Rightarrow> string \<Rightarrow> Document" where
  "doc name description = \<lparr>page_content = description, metadata = [''tool_name'' \<mapsto> name]\<rparr>"

definition branch_state :: DecomposedQueryState where
  "branch_state =
     \<lparr>decomposed_query = ''What is the NPV?'',
      expanded_queries = [''p1'', ''p2''],
      decomposed_query_tools = [doc ''get_npv'' ''NPV''],
      expanded_query_dicts =
        [\<lparr>expanded_query = ''p1'', retrieved_tools = [doc ''get_npv'' ''NPV'']\<rparr>,
         \<lparr>expanded_query = ''p2'', retrieved_tools = [doc ''get_irr'' ''IRR'']\<rparr>]\<rparr>"

definition toolshed_state :: "decomposed_query_dict list \<Rightarrow> ToolshedState" where
  "toolshed_state dicts =
     \<lparr>user_query = ''npv?'',
      conversation_history = [],
      rewritten_query = ''What is the NPV?'',
      decomposed_queries = map dq_decomposed_query dicts,
      decomposed_query_dicts = dicts,
      final_top_k_tools = []\<rparr>"

text \<open>The AI messages among the messages of a request, to read off what a prompt replays.\<close>

fun is_AIMessage :: "message \<Rightarrow> bool" where
  "is_AIMessage (AIMessage c) = True"
| "is_AIMessage (SystemMessage c) = False"
| "is_AIMessage (HumanMessage c) = False"

fun request_messages :: "request \<Rightarrow> message list" where
  "request_messages (Invoke messages) = messages"
| "request_messages (StructuredInvoke messages) = messages"

definition ai_messages_sent :: "request list \<Rightarrow> message list" where
  "ai_messages_sent trace = concat (map (\<lambda>r. filter is_AIMessage (request_messages r)) trace)"

definition unpopulated_indexer :: FAISSVectorStoreIndexer where
  "unpopulated_indexer = \<lparr>faiss_index = None\<rparr>"

definition populated_indexer :: FAISSVectorStoreIndexer where
  "populated_indexer = \<lparr>faiss_index = Some (\<lambda>n query k. Inr [doc ''get_npv'' ''NPV''])\<rparr>"

section \<open>The retry loops\<close>

text \<open>
  The recursive equations of the two loops are unfolded by hand, one attempt at a time.
\<close>

declare rmq_while.simps [simp del]

declare rdq_while.simps [simp del]

lemma rmq_try_cases:
  obtains 
    (raised) e where "rmq_structured_llm self (length trace) messages = Inl e"
      "rmq_try self messages (result, trace) = ((result, trace @ [StructuredInvoke messages]), Inl e)"
  | (none) "rmq_structured_llm self (length trace) messages = Inr None"
      "rmq_try self messages (result, trace) =
         ((None, trace @ [StructuredInvoke messages]), Inl (AttributeError_None ''tool_names''))"
  | (obj) obj where "rmq_structured_llm self (length trace) messages = Inr (Some obj)"
      "rmq_try self messages (result, trace) =
         ((Some obj, trace @ [StructuredInvoke messages]),
          Inr (int (length (tool_names obj)) = top_k self))"
  by (cases "rmq_structured_llm self (length trace) messages"; simp add: rmq_try_def split: option.splits; (cases "projr (rmq_structured_llm self (length trace) messages)")?; auto)

lemma rmq_while_done:
  "\<not> attempts < max_attempts \<Longrightarrow> rmq_while self messages attempts st = st"
  by (simp add: rmq_while.simps)

lemma rmq_while_inv:
  "max_attempts - attempts = k \<Longrightarrow>
   rmq_while self messages attempts (result, trace) = (result', trace') \<Longrightarrow>
     (\<exists>j \<le> k. trace' = trace @ replicate j (StructuredInvoke messages)) \<and>
     (result' = result \<or>
      (\<exists>n. length trace \<le> n \<and> n < length trace' \<and>
           rmq_structured_llm self n messages = Inr result'))"
proof (induction k arbitrary: attempts result trace)
  case 0
  then have "\<not> attempts < max_attempts" by simp
  with 0 show ?case by (simp add: rmq_while_done)
next
  case (Suc k)
  then have lt: "attempts < max_attempts" and k: "max_attempts - (attempts + 1) = k"
    by simp_all
  let ?t1 = "trace @ [StructuredInvoke messages]"
  have rep: "\<And>j. ?t1 @ replicate j (StructuredInvoke messages)
                  = trace @ replicate (Suc j) (StructuredInvoke messages)"
    by simp
  show ?case
  proof (cases rule: rmq_try_cases [of self trace messages result])
    case (raised e)
    with lt Suc.prems(2)
    have w: "rmq_while self messages (attempts + 1) (result, ?t1) = (result', trace')"
      by (simp add: rmq_while.simps [of self messages attempts])
    from Suc.IH [OF k w] show ?thesis
      by (metis rep Suc_le_mono Suc_leD length_append_singleton)
  next
    case none
    with lt Suc.prems(2)
    have w: "rmq_while self messages (attempts + 1) (None, ?t1) = (result', trace')"
      by (simp add: rmq_while.simps [of self messages attempts])
    from Suc.IH [OF k w] obtain j where j: "j \<le> k" "trace' = ?t1 @ replicate j (StructuredInvoke messages)"
      and r: "result' = None \<or> (\<exists>n. length ?t1 \<le> n \<and> n < length trace' \<and>
           rmq_structured_llm self n messages = Inr result')" by blast
    have A: "\<exists>j \<le> Suc k. trace' = trace @ replicate j (StructuredInvoke messages)"
      using j rep by (metis Suc_le_mono)
    have B: "\<exists>n. length trace \<le> n \<and> n < length trace' \<and>
           rmq_structured_llm self n messages = Inr result'"
      using r
    proof
      assume "result' = None"
      with none(1) j(2) show ?thesis by (intro exI [of _ "length trace"]) simp
    next
      assume "\<exists>n. length ?t1 \<le> n \<and> n < length trace' \<and>
           rmq_structured_llm self n messages = Inr result'"
      then show ?thesis by (metis Suc_leD length_append_singleton)
    qed
    from A B show ?thesis by blast
  next
    case (obj obj)
    show ?thesis
    proof (cases "int (length (tool_names obj)) = top_k self")
      case True
      with obj lt Suc.prems(2) have e: "result' = Some obj" "trace' = ?t1"
        by (simp_all add: rmq_while.simps [of self messages attempts])
      have A: "\<exists>j \<le> Suc k. trace' = trace @ replicate j (StructuredInvoke messages)"
        using e by (intro exI [of _ 1]) simp
      have B: "\<exists>n. length trace \<le> n \<and> n < length trace' \<and>
           rmq_structured_llm self n messages = Inr result'"
        using e obj(1) by (intro exI [of _ "length trace"]) simp
      from A B show ?thesis by blast
    next
      case False
      with obj lt Suc.prems(2)
      have w: "rmq_while self messages (attempts + 1) (Some obj, ?t1) = (result', trace')"
        by (simp add: rmq_while.simps [of self messages attempts])
      from Suc.IH [OF k w] obtain j where j: "j \<le> k" "trace' = ?t1 @ replicate j (StructuredInvoke messages)"
        and r: "result' = Some obj \<or> (\<exists>n. length ?t1 \<le> n \<and> n < length trace' \<and>
           rmq_structured_llm self n messages = Inr result')" by blast
      have A: "\<exists>j \<le> Suc k. trace' = trace @ replicate j (StructuredInvoke messages)"
        using j rep by (metis Suc_le_mono)
      have B: "\<exists>n. length trace \<le> n \<and> n < length trace' \<and>
           rmq_structured_llm self n messages = Inr result'"
        using r
      proof
        assume "result' = Some obj"
        with obj(1) j(2) show ?thesis by (intro exI [of _ "length trace"]) simp
      next
        assume "\<exists>n. length ?t1 \<le> n \<and> n < length trace' \<and>
           rmq_structured_llm self n messages = Inr result'"
        then show ?thesis by (metis Suc_leD length_append_singleton)
      qed
      from A B show ?thesis by blast
    qed
  qed
qed

lemma rdq_try_cases:
  obtains
    (compose) e where
      "get_final_combined_thoughts_messages fmt self q ins tls = Inl e"
      "rdq_try fmt self q ins tls (result, trace) = ((result, trace), Inl e)"
  | (llm) e msgs where
      "rdq_try fmt self q ins tls (result, trace) = ((result, trace @ [Invoke msgs]), Inl e)"
  | (structured) e msgs smsgs where
      "rdq_try fmt self q ins tls (result, trace) =
         ((result, trace @ [Invoke msgs, StructuredInvoke smsgs]), Inl e)"
  | (answer) r msgs smsgs out where
      "rdq_structured_llm self (Suc (length trace)) smsgs = Inr r"
      "rdq_try fmt self q ins tls (result, trace) =
         ((r, trace @ [Invoke msgs, StructuredInvoke smsgs]), out)"
      "out = Inr True \<longleftrightarrow> (\<exists>obj. r = Some obj \<and> len_list_set (tool_names obj) = final_top_k self)"
proof (cases "get_final_combined_thoughts_messages fmt self q ins tls")
  case (Inl e)
  then show ?thesis by (intro compose [of e]) (simp_all add: rdq_try_def)
next
  case msgs: (Inr msgs)
  show ?thesis
  proof (cases "rdq_llm self (length trace) msgs")
    case (Inl e)
    with msgs show ?thesis by (intro llm [of msgs e]) (simp add: rdq_try_def)
  next
    case ai: (Inr ai)
    show ?thesis
    proof (cases "get_structured_prompt_after_first_response fmt self ai")
      case (Inl e)
      with msgs ai show ?thesis by (intro llm [of msgs e]) (simp add: rdq_try_def)
    next
      case smsgs: (Inr smsgs)
      show ?thesis
      proof (cases "rdq_structured_llm self (Suc (length trace)) smsgs")
        case (Inl e)
        with msgs ai smsgs show ?thesis
          by (intro structured [of msgs smsgs e]) (simp add: rdq_try_def)
      next
        case (Inr r)
        show ?thesis
        proof (cases r)
          case None
          with Inr msgs ai smsgs show ?thesis
            by (intro answer [of smsgs r msgs "Inl (AttributeError_None ''tool_names'')"])
               (simp_all add: rdq_try_def)
        next
          case (Some obj)
          with Inr msgs ai smsgs show ?thesis
            by (intro answer [of smsgs r msgs
                  "Inr (len_list_set (tool_names obj) = final_top_k self)"])
               (simp_all add: rdq_try_def)
        qed
      qed
    qed
  qed
qed

lemma rdq_while_done:
  "\<not> attempts < max_attempts \<Longrightarrow> rdq_while fmt self q ins tls attempts st = st"
  by (simp add: rdq_while.simps)

text \<open>
  The invariant of the loop: the trace grows by at most one free-form and one
  structured request for each attempt left, and \<^verbatim>\<open>result\<close> is what it was or the answer
  to a structured request of the trace.
\<close>

lemma rdq_inv_extend:
  assumes e1: "length (filter is_structured e1) \<le> 1"
              "length (filter is_invoke e1) \<le> 1"
    and r1: "r1 = result \<or>
             (\<exists>n msgs. length trace \<le> n \<and> n < length (trace @ e1) \<and>
                (trace @ e1) ! n = StructuredInvoke msgs \<and> port n msgs = Inr r1)"
    and ext: "\<exists>ext. trace' = (trace @ e1) @ ext \<and> length (filter is_structured ext) \<le> k \<and>
                length (filter is_invoke ext) \<le> k"
    and res: "result' = r1 \<or>
             (\<exists>n msgs. length (trace @ e1) \<le> n \<and> n < length trace' \<and>
                trace' ! n = StructuredInvoke msgs \<and> port n msgs = Inr result')"
  shows "(\<exists>ext. trace' = trace @ ext \<and> length (filter is_structured ext) \<le> Suc k \<and>
                length (filter is_invoke ext) \<le> Suc k) \<and>
         (result' = result \<or>
          (\<exists>n msgs. length trace \<le> n \<and> n < length trace' \<and>
             trace' ! n = StructuredInvoke msgs \<and> port n msgs = Inr result'))"
proof
  from ext obtain x where x: "trace' = (trace @ e1) @ x" "length (filter is_structured x) \<le> k"
    "length (filter is_invoke x) \<le> k" by blast
  show "\<exists>ext. trace' = trace @ ext \<and> length (filter is_structured ext) \<le> Suc k \<and>
                length (filter is_invoke ext) \<le> Suc k"
    using x e1 by (intro exI [of _ "e1 @ x"]) simp
  have len: "length (trace @ e1) \<le> length trace'" using x by simp
  from res show "result' = result \<or>
          (\<exists>n msgs. length trace \<le> n \<and> n < length trace' \<and>
             trace' ! n = StructuredInvoke msgs \<and> port n msgs = Inr result')"
  proof
    assume eq: "result' = r1"
    from r1 show ?thesis
    proof
      assume "r1 = result"
      with eq show ?thesis by simp
    next
      assume "\<exists>n msgs. length trace \<le> n \<and> n < length (trace @ e1) \<and>
                (trace @ e1) ! n = StructuredInvoke msgs \<and> port n msgs = Inr r1"
      then obtain n msgs where n: "length trace \<le> n" "n < length (trace @ e1)"
        "(trace @ e1) ! n = StructuredInvoke msgs" "port n msgs = Inr r1"
        by blast
      from n(2) have "((trace @ e1) @ x) ! n = (trace @ e1) ! n"
        by (simp only: nth_append if_True)
      with n(3) x(1) have "trace' ! n = StructuredInvoke msgs"
        by simp
      moreover from n(2) len have "n < length trace'" by simp
      ultimately show ?thesis using n(1,4) eq by blast
    qed
  next
    assume "\<exists>n msgs. length (trace @ e1) \<le> n \<and> n < length trace' \<and>
                trace' ! n = StructuredInvoke msgs \<and> port n msgs = Inr result'"
    then obtain n msgs where n: "length (trace @ e1) \<le> n" "n < length trace'"
      "trace' ! n = StructuredInvoke msgs" "port n msgs = Inr result'"
      by blast
    from n(1) have "length trace \<le> n" by simp
    with n(2,3,4) show ?thesis by blast
  qed
qed

lemma rdq_while_inv:
  "max_attempts - attempts = k \<Longrightarrow>
   rdq_while fmt self q ins tls attempts (result, trace) = (result', trace') \<Longrightarrow>
     (\<exists>ext. trace' = trace @ ext \<and> length (filter is_structured ext) \<le> k \<and>
                length (filter is_invoke ext) \<le> k) \<and>
     (result' = result \<or>
      (\<exists>n msgs. length trace \<le> n \<and> n < length trace' \<and>
           trace' ! n = StructuredInvoke msgs \<and>
           rdq_structured_llm self n msgs = Inr result'))"
proof (induction k arbitrary: attempts result trace)
  case 0
  then have "\<not> attempts < max_attempts" by simp
  with 0 show ?case by (simp add: rdq_while_done)
next
  case (Suc k)
  then have lt: "attempts < max_attempts" and k: "max_attempts - (attempts + 1) = k"
    by simp_all
  note unfold = rdq_while.simps [of fmt self q ins tls attempts "(result, trace)"]
  have stop: "(\<exists>ext. trace @ e1 = (trace @ e1) @ ext \<and> length (filter is_structured ext) \<le> k \<and>
                length (filter is_invoke ext) \<le> k) \<and>
              (r1 = r1 \<or> (\<exists>n msgs. length (trace @ e1) \<le> n \<and> n < length (trace @ e1) \<and>
                 (trace @ e1) ! n = StructuredInvoke msgs \<and>
                 rdq_structured_llm self n msgs = Inr r1))" for e1 r1
    by (simp add: exI [of _ "[]"])
  show ?case
  proof (cases rule: rdq_try_cases [of fmt self q ins tls result trace])
    case (compose e)
    with lt Suc.prems(2)
    have w: "rdq_while fmt self q ins tls (attempts + 1) (result, trace @ []) = (result', trace')"
      by (simp add: unfold)
    from Suc.IH [OF k w] show ?thesis
      by (intro rdq_inv_extend [where ?e1.0 = "[]" and ?r1.0 = result]) simp_all
  next
    case (llm e msgs)
    with lt Suc.prems(2)
    have w: "rdq_while fmt self q ins tls (attempts + 1) (result, trace @ [Invoke msgs])
               = (result', trace')"
      by (simp add: unfold)
    from Suc.IH [OF k w] show ?thesis
      by (intro rdq_inv_extend [where ?e1.0 = "[Invoke msgs]" and ?r1.0 = result])
         simp_all
  next
    case (structured e msgs smsgs)
    with lt Suc.prems(2)
    have w: "rdq_while fmt self q ins tls (attempts + 1)
               (result, trace @ [Invoke msgs, StructuredInvoke smsgs]) = (result', trace')"
      by (simp add: unfold)
    from Suc.IH [OF k w] show ?thesis
      by (intro rdq_inv_extend [where ?e1.0 = "[Invoke msgs, StructuredInvoke smsgs]"
                and ?r1.0 = result])
         simp_all
  next
    case (answer r msgs smsgs out)
    let ?e1 = "[Invoke msgs, StructuredInvoke smsgs]"
    have nth: "(trace @ ?e1) ! Suc (length trace) = StructuredInvoke smsgs"
      by (simp add: nth_append)
    have r1: "r = result \<or> (\<exists>n msgs. length trace \<le> n \<and> n < length (trace @ ?e1) \<and>
                (trace @ ?e1) ! n = StructuredInvoke msgs \<and>
                rdq_structured_llm self n msgs = Inr r)"
      using answer(1) nth
      by (intro disjI2 exI [of _ "Suc (length trace)"] exI [of _ smsgs]) simp
    have "(\<exists>ext. trace' = (trace @ ?e1) @ ext \<and> length (filter is_structured ext) \<le> k \<and>
                length (filter is_invoke ext) \<le> k) \<and>
          (result' = r \<or> (\<exists>n msgs. length (trace @ ?e1) \<le> n \<and> n < length trace' \<and>
                trace' ! n = StructuredInvoke msgs \<and>
                rdq_structured_llm self n msgs = Inr result'))"
    proof (cases "out = Inr True")
      case True
      with answer(2) lt Suc.prems(2) have "result' = r" "trace' = trace @ ?e1"
        by (simp_all add: unfold)
      then show ?thesis using stop [of ?e1 r] by simp
    next
      case False
      have "rdq_while fmt self q ins tls attempts (result, trace) =
              rdq_while fmt self q ins tls (attempts + 1) (r, trace @ ?e1)"
      proof (cases out)
        case (Inl e)
        with answer(2) lt show ?thesis by (simp add: unfold)
      next
        case (Inr b)
        with False have "\<not> b" by simp
        with Inr answer(2) lt show ?thesis by (simp add: unfold)
      qed
      with Suc.prems(2)
      have w: "rdq_while fmt self q ins tls (attempts + 1) (r, trace @ ?e1) = (result', trace')"
        by simp
      from Suc.IH [OF k w] show ?thesis .
    qed
    then show ?thesis using r1
      by (intro rdq_inv_extend [where ?e1.0 = ?e1 and ?r1.0 = r]) simp_all
  qed
qed

lemma length_split_requests:
  "length trace = length (filter is_invoke trace) + length (filter is_structured trace)"
proof (induction trace)
  case Nil
  show ?case by simp
next
  case (Cons request trace)
  then show ?case by (cases request) simp_all
qed

section \<open>What \<open>generate\<close> returns\<close>

lemma finalized_needs_expansion:
  "get_finalized_list_thoughts_messages fmt self uq ai uqr sr = Inr messages \<Longrightarrow>
     \<exists>expansion_messages.
       get_expansion_messages fmt (multi_query_expansion_variation_module self) uq
         = Inr expansion_messages"
  by (cases "get_expansion_messages fmt (multi_query_expansion_variation_module self) uq")
     (simp_all add: get_finalized_list_thoughts_messages_def)

lemma rmq_generate_raises:
  assumes "get_finalized_list_thoughts_messages fmt self uq ai uqr sr = Inl e"
  shows "rmq_generate fmt self uq ai uqr sr = (Inl e, [])"
proof (cases "get_expansion_messages fmt (multi_query_expansion_variation_module self) uq")
  case (Inl e')
  with assms have "e' = e" by (simp add: get_finalized_list_thoughts_messages_def)
  with Inl show ?thesis by (simp add: rmq_generate_def)
next
  case (Inr expansion_messages)
  with assms show ?thesis by (simp add: rmq_generate_def)
qed

lemma rmq_generate_char:
  assumes m: "get_finalized_list_thoughts_messages fmt self uq ai uqr sr = Inr messages"
  shows "\<exists>r trace. rmq_generate fmt self uq ai uqr sr = (Inr r, trace) \<and>
     length trace \<le> max_attempts \<and>
     trace = replicate (length trace) (StructuredInvoke messages) \<and>
     (r = [] \<or>
      (\<exists>n obj. n < length trace \<and>
         rmq_structured_llm self n messages = Inr (Some obj) \<and>
         r = tool_names obj \<and> int (length r) = top_k self))"
proof -
  from finalized_needs_expansion [OF m] obtain expansion_messages where
    em: "get_expansion_messages fmt (multi_query_expansion_variation_module self) uq
           = Inr expansion_messages"
    by blast
  obtain result' trace' where w: "rmq_while self messages 0 (None, []) = (result', trace')"
    by (cases "rmq_while self messages 0 (None, [])")
  have k: "max_attempts - 0 = max_attempts" by simp
  note inv = rmq_while_inv [OF k w]
  from inv have "\<exists>j\<le>max_attempts. trace' = replicate j (StructuredInvoke messages)"
    by simp
  then have len: "length trace' \<le> max_attempts"
    and rep: "trace' = replicate (length trace') (StructuredInvoke messages)"
    by auto
  from inv have r: "result' = None \<or>
            (\<exists>n. n < length trace' \<and> rmq_structured_llm self n messages = Inr result')"
    by simp
  show ?thesis
  proof (cases result')
    case None
    with w len rep em m show ?thesis by (simp add: rmq_generate_def)
  next
    case (Some obj)
    with r obtain n where
      n: "n < length trace'" "rmq_structured_llm self n messages = Inr (Some obj)"
      by auto
    show ?thesis
    proof (cases "int (length (tool_names obj)) = top_k self")
      case True
      with Some w len rep n em m show ?thesis by (auto simp: rmq_generate_def)
    next
      case False
      with Some w len rep em m show ?thesis by (simp add: rmq_generate_def)
    qed
  qed
qed

lemma rmq_generate_returns:
  assumes "fst (rmq_generate fmt self uq ai uqr sr) = Inr r"
  obtains messages where
    "get_finalized_list_thoughts_messages fmt self uq ai uqr sr = Inr messages"
proof (cases "get_finalized_list_thoughts_messages fmt self uq ai uqr sr")
  case (Inl e)
  from rmq_generate_raises [OF Inl] assms show ?thesis by simp
next
  case (Inr messages)
  then show ?thesis by (rule that)
qed

lemma rdq_generate_char:
  "\<exists>r trace. rdq_generate fmt self q ins tls = (Inr r, trace) \<and>
     length (filter is_invoke trace) \<le> max_attempts \<and>
     length (filter is_structured trace) \<le> max_attempts \<and>
     (r = [] \<or>
      (\<exists>n messages obj. n < length trace \<and> trace ! n = StructuredInvoke messages \<and>
         rdq_structured_llm self n messages = Inr (Some obj) \<and>
         r = tool_names obj \<and> len_list_set r = final_top_k self))"
proof -
  obtain result' trace' where w: "rdq_while fmt self q ins tls 0 (None, []) = (result', trace')"
    by (cases "rdq_while fmt self q ins tls 0 (None, [])")
  have k: "max_attempts - 0 = max_attempts" by simp
  note inv = rdq_while_inv [OF k w]
  from inv have len: "length (filter is_invoke trace') \<le> max_attempts"
            "length (filter is_structured trace') \<le> max_attempts"
    by simp_all
  from inv have r: "result' = None \<or>
            (\<exists>n messages. n < length trace' \<and> trace' ! n = StructuredInvoke messages \<and>
               rdq_structured_llm self n messages = Inr result')"
    by simp
  show ?thesis
  proof (cases result')
    case None
    with w len show ?thesis by (simp add: rdq_generate_def)
  next
    case (Some obj)
    with r obtain n messages where
      n: "n < length trace'" "trace' ! n = StructuredInvoke messages"
         "rdq_structured_llm self n messages = Inr (Some obj)"
      by auto
    show ?thesis
    proof (cases "len_list_set (tool_names obj) = final_top_k self")
      case True
      with Some w len n show ?thesis by (auto simp: rdq_generate_def)
    next
      case False
      with Some w len show ?thesis by (simp add: rdq_generate_def)
    qed
  qed
qed

lemma rdq_generate_trace_length:
  "length (snd (rdq_generate fmt self q ins tls)) \<le> 2 * max_attempts"
proof -
  from rdq_generate_char [of fmt self q ins tls] obtain r trace where
    g: "rdq_generate fmt self q ins tls = (Inr r, trace)"
    and "length (filter is_invoke trace) \<le> max_attempts"
    and "length (filter is_structured trace) \<le> max_attempts"
    by blast
  then show ?thesis using length_split_requests [of trace] by simp
qed


lemma enumerate_member:
  "n < length trace \<Longrightarrow> (n, trace ! n) \<in> set (enumerate 0 trace)"
  by (simp add: in_set_enumerate_eq)

lemma rmq_no_attempt_succeedsD:
  assumes "rmq_no_attempt_succeeds self trace" and "n < length trace"
    and "trace ! n = StructuredInvoke messages"
  shows "rmq_attempt_fails self (rmq_structured_llm self n messages)"
proof -
  from assms(2) have "(n, trace ! n) \<in> set (enumerate 0 trace)" by (rule enumerate_member)
  with assms(1) have
    "(case trace ! n of
        Invoke messages \<Rightarrow> True
      | StructuredInvoke messages \<Rightarrow>
          rmq_attempt_fails self (rmq_structured_llm self n messages))"
    unfolding rmq_no_attempt_succeeds_def list_all_iff by fastforce
  with assms(3) show ?thesis by simp
qed

lemma rdq_no_attempt_succeedsD:
  assumes "rdq_no_attempt_succeeds self trace" and "n < length trace"
    and "trace ! n = StructuredInvoke messages"
  shows "rdq_attempt_fails self (rdq_structured_llm self n messages)"
proof -
  from assms(2) have "(n, trace ! n) \<in> set (enumerate 0 trace)" by (rule enumerate_member)
  with assms(1) have
    "(case trace ! n of
        Invoke messages \<Rightarrow> True
      | StructuredInvoke messages \<Rightarrow>
          rdq_attempt_fails self (rdq_structured_llm self n messages))"
    unfolding rdq_no_attempt_succeeds_def list_all_iff by fastforce
  with assms(3) show ?thesis by simp
qed

lemmas format_eval =
  fstring_format_messages_def get_expansion_messages_def
  get_finalized_list_thoughts_messages_def get_final_combined_thoughts_messages_def
  get_structured_prompt_after_first_response_def
  get_structured_message_after_first_response_def
  format_documents_def format_document_def metadata_get_def enumerate1_def KeyError_def

lemmas rdq_eval =
  rdq_generate_def rdq_while.simps rdq_try_def max_attempts_def combiner_of_def always_def
  len_list_set_def Let_def format_eval

lemmas rmq_eval =
  rmq_generate_def rmq_while.simps rmq_try_def max_attempts_def reranker_of_def always_def
  expander_of_def Let_def format_eval

section \<open>Cross-Intent Combiner: what a successful call returns\<close>




section \<open>Intent-Level Reranker: what a successful call returns\<close>

text \<open>
  C2, as stated, fails: the loop tests the length of the list and nothing else. With
  \<open>top_k = 2\<close>, a port that answers \<open>[a, a]\<close> makes \<open>generate\<close> return \<open>[a, a]\<close>.
\<close>

theorem reranker_duplicates_counterexample:
  "fst (rmq_generate fstring_format_messages (reranker_of 2 (always [''a'', ''a''])) ''q''
          (PyStr ''r'') [] [])
     = Inr [''a'', ''a''] \<and>
   \<not> distinct [''a'', ''a'']"
  by (simp add: rmq_eval)

text \<open>
  C2, amended: for every call of the Intent-Level Reranker that returns a non-empty
  list, the returned list has length exactly \<open>top_k\<close>, and it is the list that the
  Generation Port returned, for the prompt the call built, on one of the (at most
  three) attempts, unchanged.
\<close>

theorem reranker_success_length:
  assumes "fst (rmq_generate fmt self user_question ai_response user_question_results
                  sentence_results) = Inr r"
    and "r \<noteq> []"
  shows "int (length r) = top_k self \<and>
         (\<exists>n messages. n < max_attempts \<and>
            get_finalized_list_thoughts_messages fmt self user_question ai_response
              user_question_results sentence_results = Inr messages \<and>
            rmq_structured_llm self n messages = Inr (Some (FinalToolNames r)))"
proof -
  from assms(1) obtain messages where
    m: "get_finalized_list_thoughts_messages fmt self user_question ai_response
          user_question_results sentence_results = Inr messages"
    by (rule rmq_generate_returns)
  from rmq_generate_char [OF m] obtain r' trace where
    g: "rmq_generate fmt self user_question ai_response user_question_results
          sentence_results = (Inr r', trace)"
    and len: "length trace \<le> max_attempts"
    and r': "r' = [] \<or>
      (\<exists>n obj. n < length trace \<and>
         rmq_structured_llm self n messages = Inr (Some obj) \<and>
         r' = tool_names obj \<and> int (length r') = top_k self)"
    by blast
  from g assms(1) have "r' = r" by simp
  with r' assms(2) obtain n obj where n: "n < length trace"
    and p: "rmq_structured_llm self n messages = Inr (Some obj)"
    and o: "r = tool_names obj" and l: "int (length r) = top_k self"
    by blast
  from o have "obj = FinalToolNames r" by (cases obj) simp
  with p have "rmq_structured_llm self n messages = Inr (Some (FinalToolNames r))"
    by simp
  moreover from n len have "n < max_attempts" by simp
  ultimately show ?thesis using m l by blast
qed

theorem reranker_success_length_witness:
  "int (length [''a'', ''a'']) = top_k (reranker_of 2 (always [''a'', ''a''])) \<and>
   (\<exists>n messages. n < max_attempts \<and>
      get_finalized_list_thoughts_messages fstring_format_messages
        (reranker_of 2 (always [''a'', ''a''])) ''q'' (PyStr ''r'') [] [] = Inr messages \<and>
      rmq_structured_llm (reranker_of 2 (always [''a'', ''a''])) n messages
        = Inr (Some (FinalToolNames [''a'', ''a''])))"
proof -
  have g: "fst (rmq_generate fstring_format_messages (reranker_of 2 (always [''a'', ''a'']))
                  ''q'' (PyStr ''r'') [] [])
             = Inr [''a'', ''a'']"
    by (simp add: rmq_eval)
  have ne: "[''a'', ''a''] \<noteq> []" by simp
  from reranker_success_length [OF g ne] show ?thesis .
qed

section \<open>Intent-Level Reranker: the length invariant\<close>

text \<open>
  C6: for every input and every behaviour of the Generation Port in the attempt
  loop, the value that the Intent-Level Reranker returns is either a list of length
  exactly \<open>top_k\<close> or the empty list; and it does return a value whenever its prompt
  has been built, whatever the port does in the loop. (The prompt is built before the
  loop, outside the handler: an exception of the template library there is raised by
  \<open>generate\<close>, and then there is no return value.)
\<close>

theorem reranker_length_or_empty:
  "(\<forall>r. fst (rmq_generate fmt self user_question ai_response user_question_results
              sentence_results) = Inr r \<longrightarrow>
        int (length r) = top_k self \<or> r = []) \<and>
   (\<forall>messages.
      get_finalized_list_thoughts_messages fmt self user_question ai_response
        user_question_results sentence_results = Inr messages \<longrightarrow>
      (\<exists>r. fst (rmq_generate fmt self user_question ai_response user_question_results
                 sentence_results) = Inr r))"
proof (intro conjI allI impI)
  fix r
  assume g: "fst (rmq_generate fmt self user_question ai_response user_question_results
              sentence_results) = Inr r"
  then obtain messages where
    m: "get_finalized_list_thoughts_messages fmt self user_question ai_response
          user_question_results sentence_results = Inr messages"
    by (rule rmq_generate_returns)
  from rmq_generate_char [OF m] g show "int (length r) = top_k self \<or> r = []"
    by auto
next
  fix messages
  assume "get_finalized_list_thoughts_messages fmt self user_question ai_response
        user_question_results sentence_results = Inr messages"
  from rmq_generate_char [OF this]
  show "\<exists>r. fst (rmq_generate fmt self user_question ai_response user_question_results
                 sentence_results) = Inr r"
    by auto
qed

text \<open>
  The case the claim singles out: the first attempt returns a list of the wrong
  length, the two later attempts raise; the list kept in \<^verbatim>\<open>result\<close> is not returned.
\<close>

theorem reranker_length_or_empty_witness:
  "get_finalized_list_thoughts_messages fstring_format_messages
     (reranker_of 2 (once_then_raise [''a''])) ''q'' (PyStr ''r'') [] []
     = Inr [SystemMessage (ExpansionSystem 2), HumanMessage (ExpansionHuman ''q'' 2),
            AIMessage (Format (PyStr ''r'')), HumanMessage (FinalizedListThoughts [] [] 2)] \<and>
   fst (rmq_generate fstring_format_messages (reranker_of 2 (once_then_raise [''a''])) ''q''
          (PyStr ''r'') [] []) = Inr [] \<and>
   length (snd (rmq_generate fstring_format_messages (reranker_of 2 (once_then_raise [''a'']))
                  ''q'' (PyStr ''r'') [] [])) = 3"
proof -
  have m: "get_finalized_list_thoughts_messages fstring_format_messages
     (reranker_of 2 (once_then_raise [''a''])) ''q'' (PyStr ''r'') [] []
     = Inr [SystemMessage (ExpansionSystem 2), HumanMessage (ExpansionHuman ''q'' 2),
            AIMessage (Format (PyStr ''r'')), HumanMessage (FinalizedListThoughts [] [] 2)]"
    by (simp add: rmq_eval)
  have g: "rmq_generate fstring_format_messages (reranker_of 2 (once_then_raise [''a'']))
             ''q'' (PyStr ''r'') [] [] =
           (Inr [],
            replicate 3 (StructuredInvoke
              [SystemMessage (ExpansionSystem 2), HumanMessage (ExpansionHuman ''q'' 2),
               AIMessage (Format (PyStr ''r'')),
               HumanMessage (FinalizedListThoughts [] [] 2)]))"
    by (simp add: rmq_eval once_then_raise_def numeral_3_eq_3)
  from reranker_length_or_empty
         [of fstring_format_messages "reranker_of 2 (once_then_raise [''a''])" "''q''"
             "PyStr ''r''" "[]" "[]"] m g
  show ?thesis by simp
qed

section \<open>The retry bound\<close>

text \<open>
  C3, as stated, fails for the Cross-Intent Combiner: each of its attempts makes two
  requests to the Generation Port, \<^verbatim>\<open>self.llm.invoke\<close> and
  \<^verbatim>\<open>self.structured_llm.invoke\<close>. With \<open>final_top_k = 2\<close> and a port that answers the
  one-name list \<open>[a]\<close>, the three attempts make six requests.
\<close>

theorem combiner_six_requests_counterexample:
  "length (snd (rdq_generate fstring_format_messages (combiner_of 2 (always [''a''])) ''q''
                  [''i1'', ''i2''] [[''a'', ''b''], [''c'', ''d'']])) = 6 \<and>
   \<not> length (snd (rdq_generate fstring_format_messages (combiner_of 2 (always [''a''])) ''q''
                  [''i1'', ''i2''] [[''a'', ''b''], [''c'', ''d'']])) \<le> 3"
  by (simp add: rdq_eval)

text \<open>
  C3, amended: for every input and every behaviour of the Generation Port, one call
  of the Intent-Level Reranker makes at most 3 requests to the port, and one call of
  the Cross-Intent Combiner makes at most 3 free-form requests and at most 3
  structured requests, at most 6 requests in all.
\<close>

theorem generation_port_requests_bounded:
  "length (snd (rmq_generate fmt reranker user_question ai_response user_question_results
                  sentence_results)) \<le> 3 \<and>
   length (filter is_invoke
             (snd (rdq_generate fmt combiner question list_of_intents
                     list_of_list_of_tools))) \<le> 3 \<and>
   length (filter is_structured
             (snd (rdq_generate fmt combiner question list_of_intents
                     list_of_list_of_tools))) \<le> 3 \<and>
   length (snd (rdq_generate fmt combiner question list_of_intents list_of_list_of_tools))
     \<le> 6"
proof -
  have a: "length (snd (rmq_generate fmt reranker user_question ai_response
                          user_question_results sentence_results)) \<le> 3"
  proof (cases "get_finalized_list_thoughts_messages fmt reranker user_question ai_response
                  user_question_results sentence_results")
    case (Inl e)
    from rmq_generate_raises [OF Inl] show ?thesis by simp
  next
    case (Inr messages)
    from rmq_generate_char [OF Inr] show ?thesis by (auto simp: max_attempts_def)
  qed
  from rdq_generate_char [of fmt combiner question list_of_intents list_of_list_of_tools]
  have b: "length (filter is_invoke
             (snd (rdq_generate fmt combiner question list_of_intents
                     list_of_list_of_tools))) \<le> 3"
    and c: "length (filter is_structured
             (snd (rdq_generate fmt combiner question list_of_intents
                     list_of_list_of_tools))) \<le> 3"
    by (auto simp: max_attempts_def)
  from rdq_generate_trace_length [of fmt combiner question list_of_intents
         list_of_list_of_tools]
  have d: "length (snd (rdq_generate fmt combiner question list_of_intents
                          list_of_list_of_tools)) \<le> 6"
    by (simp add: max_attempts_def)
  from a b c d show ?thesis by blast
qed

section \<open>Exhausted retries\<close>

text \<open>
  C4, as stated, fails for the Intent-Level Reranker: it builds its prompt before the
  loop, outside the handler. With the question \<^verbatim>\<open>What is {x}?\<close> the template library
  raises KeyError on the field \<open>x\<close>; no attempt is made, so none succeeds, and the call
  raises instead of returning the empty list.
\<close>

theorem reranker_raises_before_loop_counterexample:
  "rmq_generate fstring_format_messages (reranker_of 2 (always [''a''])) ''What is {x}?''
     (PyStr ''r'') [] [] = (Inl (KeyError ''x''), []) \<and>
   rmq_no_attempt_succeeds (reranker_of 2 (always [''a'']))
     (snd (rmq_generate fstring_format_messages (reranker_of 2 (always [''a'']))
             ''What is {x}?'' (PyStr ''r'') [] [])) \<and>
   fst (rmq_generate fstring_format_messages (reranker_of 2 (always [''a'']))
          ''What is {x}?'' (PyStr ''r'') [] []) \<noteq> Inr []"
  by (simp add: rmq_eval rmq_no_attempt_succeeds_def)

text \<open>
  C4, amended: if the prompt of the Intent-Level Reranker is built without an
  exception and none of its attempts succeeds (each structured request it made was
  answered by an exception, by \<^verbatim>\<open>None\<close> or by a list whose length is not \<open>top_k\<close>), it
  returns the empty list and does not raise; and for every input, if none of the
  attempts of the Cross-Intent Combiner succeeds (the prompt could not be built, a
  pass raised, or the answer failed the test), the Combiner returns the empty list
  and does not raise.
\<close>

theorem exhausted_retries_return_empty:
  assumes "get_finalized_list_thoughts_messages fmt reranker user_question ai_response
             user_question_results sentence_results = Inr messages"
    and "rmq_no_attempt_succeeds reranker
           (snd (rmq_generate fmt reranker user_question ai_response user_question_results
                   sentence_results))"
    and "rdq_no_attempt_succeeds combiner
           (snd (rdq_generate fmt combiner question list_of_intents list_of_list_of_tools))"
  shows "fst (rmq_generate fmt reranker user_question ai_response user_question_results
                sentence_results) = Inr [] \<and>
         fst (rdq_generate fmt combiner question list_of_intents list_of_list_of_tools)
           = Inr []"
proof
  from rmq_generate_char [OF assms(1)]
  obtain r trace where
    g: "rmq_generate fmt reranker user_question ai_response user_question_results
          sentence_results = (Inr r, trace)"
    and rep: "trace = replicate (length trace) (StructuredInvoke messages)"
    and r: "r = [] \<or>
      (\<exists>n obj. n < length trace \<and>
         rmq_structured_llm reranker n messages = Inr (Some obj) \<and>
         r = tool_names obj \<and> int (length r) = top_k reranker)"
    by blast
  have "r = []"
  proof (rule ccontr)
    assume "r \<noteq> []"
    with r obtain n obj where n: "n < length trace"
      and p: "rmq_structured_llm reranker n messages = Inr (Some obj)"
      and l: "int (length (tool_names obj)) = top_k reranker"
      by auto
    from rep n have "trace ! n = StructuredInvoke messages"
      by (metis nth_replicate)
    with assms(2) g n
    have "rmq_attempt_fails reranker (rmq_structured_llm reranker n messages)"
      by (intro rmq_no_attempt_succeedsD [of reranker trace n messages]) simp_all
    with p have "int (length (tool_names obj)) \<noteq> top_k reranker"
      by (simp add: rmq_attempt_fails_def)
    with l show False by simp
  qed
  with g show "fst (rmq_generate fmt reranker user_question ai_response
                      user_question_results sentence_results) = Inr []"
    by simp
next
  from rdq_generate_char [of fmt combiner question list_of_intents list_of_list_of_tools]
  obtain r trace where
    g: "rdq_generate fmt combiner question list_of_intents list_of_list_of_tools
          = (Inr r, trace)"
    and r: "r = [] \<or>
      (\<exists>n messages obj. n < length trace \<and> trace ! n = StructuredInvoke messages \<and>
         rdq_structured_llm combiner n messages = Inr (Some obj) \<and>
         r = tool_names obj \<and> len_list_set r = final_top_k combiner)"
    by blast
  have "r = []"
  proof (rule ccontr)
    assume "r \<noteq> []"
    with r obtain n messages obj where n: "n < length trace"
      and t: "trace ! n = StructuredInvoke messages"
      and p: "rdq_structured_llm combiner n messages = Inr (Some obj)"
      and l: "len_list_set (tool_names obj) = final_top_k combiner"
      by auto
    from assms(3) g n t
    have "rdq_attempt_fails combiner (rdq_structured_llm combiner n messages)"
      by (intro rdq_no_attempt_succeedsD [of combiner trace n messages]) simp_all
    with p have "len_list_set (tool_names obj) \<noteq> final_top_k combiner"
      by (simp add: rdq_attempt_fails_def)
    with l show False by simp
  qed
  with g show "fst (rdq_generate fmt combiner question list_of_intents
                      list_of_list_of_tools) = Inr []"
    by simp
qed

text \<open>
  Scenario D of the specification for the reranker: \<open>top_k = 2\<close> and a port that
  returns a list of length \<open>top_k - 1\<close> on every attempt. For the combiner: the
  free-form pass raises on every attempt, while the structured port would have
  answered a list that passes the test.
\<close>

theorem exhausted_retries_return_empty_witness:
  "rmq_generate fstring_format_messages (reranker_of 2 (always [''a''])) ''q'' (PyStr ''r'')
     [] [] =
     (Inr [],
      replicate 3 (StructuredInvoke
        [SystemMessage (ExpansionSystem 2), HumanMessage (ExpansionHuman ''q'' 2),
         AIMessage (Format (PyStr ''r'')), HumanMessage (FinalizedListThoughts [] [] 2)])) \<and>
   fst (rdq_generate fstring_format_messages (combiner_llm_down 2 (always [''x'', ''y'']))
          ''q'' [''i1'', ''i2''] [[''a'', ''b''], [''c'', ''d'']]) = Inr [] \<and>
   length (snd (rdq_generate fstring_format_messages
                  (combiner_llm_down 2 (always [''x'', ''y'']))
                  ''q'' [''i1'', ''i2''] [[''a'', ''b''], [''c'', ''d'']])) = 3"
proof -
  let ?m = "[SystemMessage (ExpansionSystem 2), HumanMessage (ExpansionHuman ''q'' 2),
             AIMessage (Format (PyStr ''r'')), HumanMessage (FinalizedListThoughts [] [] 2)]"
  have m: "get_finalized_list_thoughts_messages fstring_format_messages
             (reranker_of 2 (always [''a''])) ''q'' (PyStr ''r'') [] [] = Inr ?m"
    by (simp add: rmq_eval)
  have t1: "snd (rmq_generate fstring_format_messages (reranker_of 2 (always [''a''])) ''q''
                   (PyStr ''r'') [] []) = replicate 3 (StructuredInvoke ?m)"
    by (simp add: rmq_eval numeral_3_eq_3)
  have h1: "rmq_no_attempt_succeeds (reranker_of 2 (always [''a'']))
              (snd (rmq_generate fstring_format_messages (reranker_of 2 (always [''a'']))
                      ''q'' (PyStr ''r'') [] []))"
    unfolding t1
    by (simp add: rmq_no_attempt_succeeds_def rmq_attempt_fails_def reranker_of_def
          always_def numeral_3_eq_3)
  have t2: "length (snd (rdq_generate fstring_format_messages
                  (combiner_llm_down 2 (always [''x'', ''y'']))
                  ''q'' [''i1'', ''i2''] [[''a'', ''b''], [''c'', ''d'']])) = 3
            \<and> list_all is_invoke (snd (rdq_generate fstring_format_messages
                  (combiner_llm_down 2 (always [''x'', ''y'']))
                  ''q'' [''i1'', ''i2''] [[''a'', ''b''], [''c'', ''d'']]))"
    by (simp add: rdq_eval combiner_llm_down_def)
  have h2: "rdq_no_attempt_succeeds (combiner_llm_down 2 (always [''x'', ''y'']))
              (snd (rdq_generate fstring_format_messages
                  (combiner_llm_down 2 (always [''x'', ''y'']))
                  ''q'' [''i1'', ''i2''] [[''a'', ''b''], [''c'', ''d'']]))"
    by (simp add: rdq_eval combiner_llm_down_def rdq_no_attempt_succeeds_def)
  from exhausted_retries_return_empty [OF m h1 h2] t1 t2 show ?thesis
    by (simp add: prod_eq_iff)
qed

section \<open>The Cross-Intent Combiner never raises\<close>

lemma no_shortlists_IndexError:
  "get_final_combined_thoughts_messages fmt self user_question list_of_intents []
     = Inl IndexError"
  by (simp add: get_final_combined_thoughts_messages_def)

lemma no_intents_ZeroDivisionError:
  "get_final_combined_thoughts_messages fmt self user_question [] (tools # rest)
     = Inl ZeroDivisionError"
  by (simp add: get_final_combined_thoughts_messages_def)

lemma rdq_while_compose_raises:
  assumes "get_final_combined_thoughts_messages fmt self q ins tls = Inl e"
  shows "rdq_while fmt self q ins tls attempts st = st"
proof (induction "max_attempts - attempts" arbitrary: attempts)
  case 0
  then show ?case by (simp add: rdq_while_done)
next
  case (Suc k)
  then have lt: "attempts < max_attempts" and k: "k = max_attempts - (attempts + 1)"
    by simp_all
  obtain result trace where st: "st = (result, trace)" by (cases st)
  have "rdq_try fmt self q ins tls st = (st, Inl e)"
    using assms by (simp add: rdq_try_def st)
  with lt have "rdq_while fmt self q ins tls attempts st
                  = rdq_while fmt self q ins tls (attempts + 1) st"
    by (simp add: rdq_while.simps [of fmt self q ins tls attempts])
  with Suc.hyps(1) [OF k] show ?case by simp
qed

text \<open>
  C10: for every input and every behaviour of the Generation Port, the Cross-Intent
  Combiner returns a list and does not raise; when composing the prompt raises
  (an empty list of shortlists, an empty list of intents, fewer shortlists than
  intents, an exception of the template library), each of the three attempts fails
  before any request to the port, and the value is the empty list.
\<close>

theorem combiner_never_raises:
  "(\<exists>r. fst (rdq_generate fmt self user_question list_of_intents list_of_list_of_tools)
          = Inr r) \<and>
   (\<forall>e. get_final_combined_thoughts_messages fmt self user_question list_of_intents
           list_of_list_of_tools = Inl e \<longrightarrow>
        rdq_generate fmt self user_question list_of_intents list_of_list_of_tools
          = (Inr [], []))"
proof
  from rdq_generate_char [of fmt self user_question list_of_intents list_of_list_of_tools]
  show "\<exists>r. fst (rdq_generate fmt self user_question list_of_intents list_of_list_of_tools)
              = Inr r"
    by auto
next
  show "\<forall>e. get_final_combined_thoughts_messages fmt self user_question list_of_intents
           list_of_list_of_tools = Inl e \<longrightarrow>
        rdq_generate fmt self user_question list_of_intents list_of_list_of_tools
          = (Inr [], [])"
    by (simp add: rdq_generate_def rdq_while_compose_raises)
qed

theorem combiner_never_raises_witness:
  "get_final_combined_thoughts_messages fstring_format_messages
     (combiner_of 2 (always [''x'', ''y''])) ''q'' [] [] = Inl IndexError \<and>
   rdq_generate fstring_format_messages (combiner_of 2 (always [''x'', ''y''])) ''q'' [] []
     = (Inr [], [])"
  using combiner_never_raises
          [of fstring_format_messages "combiner_of 2 (always [''x'', ''y''])" "''q''" "[]" "[]"]
  by (simp add: no_shortlists_IndexError)

text \<open>A brace in the question: the template library raises inside the handler.\<close>

lemma combiner_swallows_template_error:
  "get_final_combined_thoughts_messages fstring_format_messages
     (combiner_of 2 (always [''x'', ''y''])) ''What is {x}?'' [''i1'', ''i2'']
     [[''a'', ''b''], [''c'', ''d'']] = Inl (KeyError ''x'') \<and>
   rdq_generate fstring_format_messages (combiner_of 2 (always [''x'', ''y'']))
     ''What is {x}?'' [''i1'', ''i2''] [[''a'', ''b''], [''c'', ''d'']] = (Inr [], [])"
  by (simp add: rdq_eval)

section \<open>Fusion Workflow: the single-intent shortcut\<close>

lemma rerank_expanded_queries_returns:
  assumes "fst (rerank_expanded_queries fmt reranker state) = Inr dicts"
  shows "\<exists>r. fst (rmq_generate fmt reranker (decomposed_query state)
                  (PyStrList (map expanded_query (expanded_query_dicts state)))
                  (decomposed_query_tools state)
                  (map retrieved_tools (expanded_query_dicts state))) = Inr r \<and>
             dicts = [\<lparr>dq_decomposed_query = decomposed_query state,
                      dq_expanded_query_dicts = expanded_query_dicts state,
                      dq_decomposed_query_tools = decomposed_query_tools state,
                      dq_final_top_k_tools = r\<rparr>]"
proof -
  let ?g = "rmq_generate fmt reranker (decomposed_query state)
              (PyStrList (map expanded_query (expanded_query_dicts state)))
              (decomposed_query_tools state)
              (map retrieved_tools (expanded_query_dicts state))"
  obtain out trace where g: "?g = (out, trace)" by (cases ?g)
  show ?thesis
  proof (cases out)
    case (Inl e)
    with g assms show ?thesis by (simp add: rerank_expanded_queries_def)
  next
    case (Inr r)
    with g assms show ?thesis by (auto simp: rerank_expanded_queries_def)
  qed
qed

text \<open>
  C5: when one branch has completed (one intent, one entry of
  \<^verbatim>\<open>decomposed_query_dicts\<close>), \<^verbatim>\<open>rerank_decomposed_queries\<close> returns that entry's
  \<^verbatim>\<open>final_top_k_tools\<close> as it is, whatever the combiner object, and makes no request to
  the Generation Port: the Cross-Intent Combiner is not called. When the entry is the
  one that the branch's node \<^verbatim>\<open>rerank_expanded_queries\<close> appended, the Fusion Result
  is the value of the Intent-Level Reranker for that branch.
\<close>

theorem single_intent_shortcut:
  assumes "length (decomposed_query_dicts state) = 1"
  shows "rerank_decomposed_queries fmt combiner state =
           (Inr (dq_final_top_k_tools (decomposed_query_dicts state ! 0)), []) \<and>
         (fst (rerank_expanded_queries fmt reranker branch)
            = Inr (decomposed_query_dicts state) \<longrightarrow>
            fst (rerank_decomposed_queries fmt combiner state) =
              fst (rmq_generate fmt reranker (decomposed_query branch)
                     (PyStrList (map expanded_query (expanded_query_dicts branch)))
                     (decomposed_query_tools branch)
                     (map retrieved_tools (expanded_query_dicts branch))))"
proof
  from assms show shortcut: "rerank_decomposed_queries fmt combiner state =
           (Inr (dq_final_top_k_tools (decomposed_query_dicts state ! 0)), [])"
    by (simp add: rerank_decomposed_queries_def)
  show "fst (rerank_expanded_queries fmt reranker branch)
            = Inr (decomposed_query_dicts state) \<longrightarrow>
            fst (rerank_decomposed_queries fmt combiner state) =
              fst (rmq_generate fmt reranker (decomposed_query branch)
                     (PyStrList (map expanded_query (expanded_query_dicts branch)))
                     (decomposed_query_tools branch)
                     (map retrieved_tools (expanded_query_dicts branch)))"
  proof
    assume "fst (rerank_expanded_queries fmt reranker branch)
              = Inr (decomposed_query_dicts state)"
    from rerank_expanded_queries_returns [OF this] obtain r where
      g: "fst (rmq_generate fmt reranker (decomposed_query branch)
                 (PyStrList (map expanded_query (expanded_query_dicts branch)))
                 (decomposed_query_tools branch)
                 (map retrieved_tools (expanded_query_dicts branch))) = Inr r"
      and d: "decomposed_query_dicts state =
                [\<lparr>dq_decomposed_query = decomposed_query branch,
                   dq_expanded_query_dicts = expanded_query_dicts branch,
                   dq_decomposed_query_tools = decomposed_query_tools branch,
                   dq_final_top_k_tools = r\<rparr>]"
      by blast
    from d have "dq_final_top_k_tools (decomposed_query_dicts state ! 0) = r"
      by simp
    with shortcut g show "fst (rerank_decomposed_queries fmt combiner state) =
              fst (rmq_generate fmt reranker (decomposed_query branch)
                     (PyStrList (map expanded_query (expanded_query_dicts branch)))
                     (decomposed_query_tools branch)
                     (map retrieved_tools (expanded_query_dicts branch)))"
      by simp
  qed
qed

theorem single_intent_shortcut_witness:
  "fst (rerank_expanded_queries fstring_format_messages
          (reranker_of 2 (always [''get_npv'', ''get_irr''])) branch_state)
     = Inr [\<lparr>dq_decomposed_query = ''What is the NPV?'',
             dq_expanded_query_dicts = expanded_query_dicts branch_state,
             dq_decomposed_query_tools = decomposed_query_tools branch_state,
             dq_final_top_k_tools = [''get_npv'', ''get_irr'']\<rparr>] \<and>
   rerank_decomposed_queries fstring_format_messages (combiner_of 2 (always [''x'', ''y'']))
     (toolshed_state
        [\<lparr>dq_decomposed_query = ''What is the NPV?'',
          dq_expanded_query_dicts = expanded_query_dicts branch_state,
          dq_decomposed_query_tools = decomposed_query_tools branch_state,
          dq_final_top_k_tools = [''get_npv'', ''get_irr'']\<rparr>])
     = (Inr [''get_npv'', ''get_irr''], []) \<and>
   fst (rmq_generate fstring_format_messages
          (reranker_of 2 (always [''get_npv'', ''get_irr'']))
          (decomposed_query branch_state)
          (PyStrList (map expanded_query (expanded_query_dicts branch_state)))
          (decomposed_query_tools branch_state)
          (map retrieved_tools (expanded_query_dicts branch_state)))
     = Inr [''get_npv'', ''get_irr'']"
proof -
  let ?d = "\<lparr>dq_decomposed_query = ''What is the NPV?'',
             dq_expanded_query_dicts = expanded_query_dicts branch_state,
             dq_decomposed_query_tools = decomposed_query_tools branch_state,
             dq_final_top_k_tools = [''get_npv'', ''get_irr'']\<rparr>"
  let ?rr = "reranker_of 2 (always [''get_npv'', ''get_irr''])"
  have one: "length (decomposed_query_dicts (toolshed_state [?d])) = 1"
    by (simp add: toolshed_state_def)
  have g: "fst (rmq_generate fstring_format_messages ?rr
          (decomposed_query branch_state)
          (PyStrList (map expanded_query (expanded_query_dicts branch_state)))
          (decomposed_query_tools branch_state)
          (map retrieved_tools (expanded_query_dicts branch_state)))
     = Inr [''get_npv'', ''get_irr'']"
    by (simp add: rmq_eval branch_state_def doc_def)
  have b: "fst (rerank_expanded_queries fstring_format_messages ?rr branch_state) = Inr [?d]"
  proof -
    obtain out trace where o: "rmq_generate fstring_format_messages ?rr
          (decomposed_query branch_state)
          (PyStrList (map expanded_query (expanded_query_dicts branch_state)))
          (decomposed_query_tools branch_state)
          (map retrieved_tools (expanded_query_dicts branch_state)) = (out, trace)"
      by (metis surj_pair)
    with g have "out = Inr [''get_npv'', ''get_irr'']" by simp
    with o show ?thesis
      by (simp add: rerank_expanded_queries_def Let_def branch_state_def)
  qed
  have b': "fst (rerank_expanded_queries fstring_format_messages ?rr branch_state)
              = Inr (decomposed_query_dicts (toolshed_state [?d]))"
    using b by (simp add: toolshed_state_def)
  from single_intent_shortcut [OF one, of fstring_format_messages
         "combiner_of 2 (always [''x'', ''y''])" ?rr branch_state] b b' g
  show ?thesis by (simp add: toolshed_state_def)
qed

section \<open>Query Expander: the length of the extracted list\<close>




text \<open>
  No failure is handled: an exception of the template library or of the port is the
  outcome of \<open>generate\<close>. A brace in the query raises before any request.
\<close>

lemma expander_propagates_failures:
  "get_expansion_messages fmt self query = Inl e \<Longrightarrow>
     mqe_generate fmt self query = (Inl e, [])"
  "get_expansion_messages fmt self query = Inr messages \<Longrightarrow>
   mqe_llm self 0 messages = Inl e \<Longrightarrow>
     fst (mqe_generate fmt self query) = Inl e"
  "get_expansion_messages fmt self query = Inr messages \<Longrightarrow>
   mqe_llm self 0 messages = Inr ai_message \<Longrightarrow>
   get_structured_message_after_first_response fmt self ai_message query = Inl e \<Longrightarrow>
     fst (mqe_generate fmt self query) = Inl e"
  "get_expansion_messages fmt self query = Inr messages \<Longrightarrow>
   mqe_llm self 0 messages = Inr ai_message \<Longrightarrow>
   get_structured_message_after_first_response fmt self ai_message query
     = Inr structured_message \<Longrightarrow>
   mqe_structured_llm self 1 structured_message = Inl e \<Longrightarrow>
     fst (mqe_generate fmt self query) = Inl e"
  by (simp_all add: mqe_generate_def Let_def)

lemma expander_raises_on_brace:
  "mqe_generate fstring_format_messages (expander_of [''p1'', ''p2'']) ''What is {x}?''
     = (Inl (KeyError ''x''), [])"
  by (simp add: mqe_generate_def expander_of_def format_eval)

section \<open>Candidate Retriever\<close>

text \<open>
  C8: for every query and \<open>k\<close>, the Candidate Retriever queries the Similarity Search
  Port once. If the port raises, whatever the error, the retriever raises a
  ValueError whose message is \<^verbatim>\<open>Error retrieving tools: \<close> followed by the message of
  the port's error; if the port returns, the retriever returns the same documents.
  A FAISS indexer whose index has not been created raises the not-ready ValueError,
  which the retriever wraps in the same way.
\<close>

theorem retriever_wraps_port_errors:
  "snd (itr_generate self query k) = [(query, k)] \<and>
   (\<forall>e. toolshed_knowledge_base self 0 query k = Inl e \<longrightarrow>
      fst (itr_generate self query k)
        = Inl (Exn ''ValueError'' (''Error retrieving tools: '' @ exn_str e))) \<and>
   (\<forall>docs. toolshed_knowledge_base self 0 query k = Inr docs \<longrightarrow>
      fst (itr_generate self query k) = Inr docs) \<and>
   (faiss_index indexer = None \<longrightarrow>
      fst (itr_generate \<lparr>toolshed_knowledge_base = faiss_query indexer\<rparr> query k)
        = Inl (Exn ''ValueError'' (''Error retrieving tools: '' @ index_not_created)))"
  by (auto simp: itr_generate_def faiss_query_def split: sum.splits)

theorem retriever_wraps_port_errors_witness:
  "itr_generate \<lparr>toolshed_knowledge_base = faiss_query unpopulated_indexer\<rparr> ''npv'' 5
     = (Inl (Exn ''ValueError'' (''Error retrieving tools: '' @ index_not_created)),
        [(''npv'', 5)]) \<and>
   itr_generate \<lparr>toolshed_knowledge_base = faiss_query populated_indexer\<rparr> ''npv'' 5
     = (Inr [doc ''get_npv'' ''NPV''], [(''npv'', 5)])"
proof -
  let ?u = "\<lparr>toolshed_knowledge_base = faiss_query unpopulated_indexer\<rparr>"
  let ?p = "\<lparr>toolshed_knowledge_base = faiss_query populated_indexer\<rparr>"
  have hu: "toolshed_knowledge_base ?u 0 ''npv'' 5 = Inl (Exn ''ValueError'' index_not_created)"
    by (simp add: faiss_query_def unpopulated_indexer_def)
  have hn: "faiss_index unpopulated_indexer = None"
    by (simp add: unpopulated_indexer_def)
  have hp: "toolshed_knowledge_base ?p 0 ''npv'' 5 = Inr [doc ''get_npv'' ''NPV'']"
    by (simp add: faiss_query_def populated_indexer_def)
  from retriever_wraps_port_errors [of ?u "''npv''" 5 unpopulated_indexer]
       retriever_wraps_port_errors [of ?p "''npv''" 5 unpopulated_indexer] hu hn hp
  show ?thesis by (simp add: prod_eq_iff)
qed

section \<open>Fusion Workflow: the grounding argument of the Intent-Level Reranker\<close>

text \<open>
  Whatever the template library and the port do, every prompt that
  \<^verbatim>\<open>rerank_expanded_queries\<close> has the reranker send is the one built from the list of
  the paraphrases as \<^verbatim>\<open>ai_response\<close>.
\<close>

lemma rerank_expanded_queries_requests:
  assumes "get_finalized_list_thoughts_messages fmt reranker (decomposed_query state)
             (PyStrList (map expanded_query (expanded_query_dicts state)))
             (decomposed_query_tools state)
             (map retrieved_tools (expanded_query_dicts state)) = Inr messages"
  shows "set (snd (rerank_expanded_queries fmt reranker state)) \<subseteq> {StructuredInvoke messages}"
proof -
  from rmq_generate_char [OF assms] obtain r trace where
    g: "rmq_generate fmt reranker (decomposed_query state)
          (PyStrList (map expanded_query (expanded_query_dicts state)))
          (decomposed_query_tools state)
          (map retrieved_tools (expanded_query_dicts state)) = (Inr r, trace)"
    and rep: "trace = replicate (length trace) (StructuredInvoke messages)"
    by blast
  from rep have "set trace \<subseteq> {StructuredInvoke messages}"
    by (metis set_replicate_conv_if empty_subsetI subset_refl)
  moreover from g have "snd (rerank_expanded_queries fmt reranker state) = trace"
    by (simp add: rerank_expanded_queries_def)
  ultimately show ?thesis by simp
qed

text \<open>
  C9, on the code: the first pass of the expansion of the intent answers
  \<open>REASONING\<close> and the second pass extracts \<open>[p1, p2]\<close>; \<^verbatim>\<open>expand_query\<close> puts the
  extracted list in the state and drops the reasoning text, and the prompt that
  \<^verbatim>\<open>rerank_expanded_queries\<close> has the Intent-Level Reranker send replays, as the AI
  message, the list \<open>[p1, p2]\<close> of the paraphrases and not the reasoning text.
\<close>

theorem rerank_expanded_queries_grounding:
  "mqe_llm (expander_of [''p1'', ''p2'']) 0
     [SystemMessage (ExpansionSystem 2),
      HumanMessage (ExpansionHuman (decomposed_query branch_state) 2)]
     = Inr ''REASONING'' \<and>
   expand_query fstring_format_messages (expander_of [''p1'', ''p2'']) branch_state =
     (Inr [''p1'', ''p2''],
      [Invoke [SystemMessage (ExpansionSystem 2),
               HumanMessage (ExpansionHuman (decomposed_query branch_state) 2)],
       StructuredInvoke
         [SystemMessage (SimplifiedExpansion (PyStr (decomposed_query branch_state))),
          AIMessage (Format (PyAIMessage ''REASONING'')),
          HumanMessage (ExtractQuestions 2)]]) \<and>
   ai_messages_sent
     (snd (rerank_expanded_queries fstring_format_messages
             (reranker_of 2 (always [''get_npv'', ''get_irr''])) branch_state))
     = [AIMessage (Format (PyStrList [''p1'', ''p2'']))] \<and>
   AIMessage (Format (PyStrList [''p1'', ''p2''])) \<noteq> AIMessage (Format (PyStr ''REASONING''))"
  by (simp add: expand_query_def mqe_generate_def rerank_expanded_queries_def rmq_eval
        ai_messages_sent_def branch_state_def doc_def)

end
